theory Spec2Isabelle
  imports Main "HOL-Library.Sublist" "HOL-Library.Word"
begin

section \<open>Error model (models.go)\<close>

text \<open>
  A Go \<^verbatim>\<open>error\<close> is either nil or a value with an \<^verbatim>\<open>Error()\<close> text; only the
  text is ever read by this library, so an error is its text and nil is \<open>None\<close>.
\<close>

type_synonym go_error = "string option"

text \<open>\<^verbatim>\<open>type APIErrType string\<close> with its two constants.\<close>

type_synonym APIErrType = string

definition APIErrTypeUnknown :: APIErrType where
  "APIErrTypeUnknown = ''unknown''"

definition APIErrTypeInvalidGrant :: APIErrType where
  "APIErrTypeInvalidGrant = ''oauth: invalid grant''"

text \<open>
  \<^verbatim>\<open>strings.Contains(s, substr)\<close>: does \<open>substr\<close> occur as a contiguous run of
  bytes of \<open>s\<close>. Written as the scan over the start positions.
\<close>

fun Contains :: "string \<Rightarrow> string \<Rightarrow> bool" where
  "Contains [] substr = (substr = [])"
| "Contains (c # s) substr = (prefix substr (c # s) \<or> Contains s substr)"

text \<open>
  \<^verbatim>\<open>ParseAPIErrType\<close>: nil gives the unknown type; otherwise the switch on the
  error text.
\<close>

definition ParseAPIErrType :: "go_error \<Rightarrow> APIErrType" where
  "ParseAPIErrType err =
     (case err of
        None \<Rightarrow> APIErrTypeUnknown
      | Some text \<Rightarrow>
          if Contains text ''invalid_grant'' then APIErrTypeInvalidGrant
          else APIErrTypeUnknown)"

record APIError =
  Code :: int
  Message :: string
  Type :: APIErrType

section \<open>Error mapper (checkForError)\<close>

text \<open>
  What \<^verbatim>\<open>checkForError\<close> reads of a \<^verbatim>\<open>*resty.Response\<close>: the status code
  and status line, the error object of the request (\<^verbatim>\<open>resp.Error()\<close>), and, for the
  operations, the body text and the cookies. The field \<open>Error\<close> is \<open>Some e\<close> when
  the type assertion \<^verbatim>\<open>resp.Error().(*HTTPErrorResponse)\<close> succeeds with the object
  \<open>e\<close>, and \<open>None\<close> when it does not.

  \<^verbatim>\<open>HTTPErrorResponse\<close> is declared in another file of the package; its type is
  the parameter \<open>'e\<close>, and its methods \<^verbatim>\<open>NotEmpty\<close> and \<^verbatim>\<open>String\<close> (which
  \<^verbatim>\<open>fmt.Sprintf\<close> calls for the verb \<^verbatim>\<open>%s\<close>) are passed to \<open>checkForError\<close>
  as the functions \<open>NotEmpty\<close> and \<open>ErrString\<close>.
\<close>

record ('e, 'c) Response =
  StatusCode :: int
  Status :: string
  Error :: "'e option"
  RespString :: string
  RespCookies :: "'c list"

text \<open>resty: \<^verbatim>\<open>func (r *Response) IsError() bool { return r.StatusCode() > 399 }\<close>.\<close>

definition IsError :: "('e, 'c) Response \<Rightarrow> bool" where
  "IsError resp = (StatusCode resp > 399)"

text \<open>
  pkg/errors: \<^verbatim>\<open>errors.Wrap(err, message).Error()\<close> is the message, a colon and a
  space, then the text of the wrapped error.
\<close>

definition Wrap :: "string \<Rightarrow> string \<Rightarrow> string" where
  "Wrap text message = message @ '': '' @ text"

text \<open>
  \<^verbatim>\<open>checkForError(resp, err, errMessage)\<close>; the result \<open>None\<close> is the nil error.
  The struct literal of the empty-response branch leaves \<^verbatim>\<open>Code\<close> out, so it is
  the zero value.
\<close>

definition checkForError ::
  "('e \<Rightarrow> bool) \<Rightarrow> ('e \<Rightarrow> string) \<Rightarrow> ('e, 'c) Response option \<Rightarrow> go_error \<Rightarrow> string
     \<Rightarrow> APIError option" where
  "checkForError NotEmpty ErrString resp err errMessage =
     (case err of
        Some text \<Rightarrow>
          Some \<lparr>Code = 0, Message = Wrap text errMessage, Type = ParseAPIErrType err\<rparr>
      | None \<Rightarrow>
          (case resp of
             None \<Rightarrow>
               Some \<lparr>Code = 0, Message = ''empty response'', Type = ParseAPIErrType err\<rparr>
           | Some r \<Rightarrow>
               if IsError r then
                 Some \<lparr>Code = StatusCode r,
                       Message =
                         (case Error r of
                            Some e \<Rightarrow>
                              if NotEmpty e then Status r @ '': '' @ ErrString e
                              else Status r
                          | None \<Rightarrow> Status r),
                       Type = ParseAPIErrType err\<rparr>
               else None))"

section \<open>Request builder\<close>

text \<open>
  The tracer is outside this library. \<^verbatim>\<open>tracer.Inject(sm, format, carrier)\<close> writes
  into the header map it is handed and returns an error or nil: a tracer is the function
  from the span context and the header map before the call to the header map after the
  call and the error.
\<close>

type_synonym 'sc Tracer = "'sc \<Rightarrow> (string \<rightharpoonup> string) \<Rightarrow> (string \<rightharpoonup> string) \<times> go_error"

text \<open>
  What the library reads of a \<^verbatim>\<open>context.Context\<close>: the active span
  (\<^verbatim>\<open>opentracing.SpanFromContext(ctx)\<close>, by its span context, \<open>None\<close> for nil) and
  the tracer stored under \<^verbatim>\<open>tracerContextKey\<close> (\<open>None\<close> when the type assertion to
  \<^verbatim>\<open>opentracing.Tracer\<close> fails).
\<close>

record 'sc Context =
  Span :: "'sc option"
  TracerValue :: "'sc Tracer option"

text \<open>
  The fields of a \<^verbatim>\<open>*resty.Request\<close> that the library sets. \<open>Result\<close> is the
  pointer that \<^verbatim>\<open>SetResult\<close> stored, an address of the heap below; \<open>ErrorSet\<close>
  says that \<^verbatim>\<open>SetError\<close> wired the error object.
\<close>

type_synonym addr = nat

record ('b, 'c, 'sc) Request =
  Ctx :: "'sc Context option"
  ErrorSet :: bool
  Header :: "string \<rightharpoonup> string"
  QueryParam :: "string \<rightharpoonup> string"
  Cookies :: "'c list"
  Token :: string
  Body :: "'b option"
  Result :: "addr option"
  Method :: string
  URL :: string

text \<open>
  The result objects of one call live in a heap: a list of objects, an address is an
  index. \<open>new\<close> allocates, \<open>store\<close> writes through a pointer, \<open>load\<close> reads.
\<close>

type_synonym 'r heap = "'r list"

definition new :: "'r \<Rightarrow> 'r heap \<Rightarrow> addr \<times> 'r heap" where
  "new v h = (length h, h @ [v])"

definition store :: "addr \<Rightarrow> 'r \<Rightarrow> 'r heap \<Rightarrow> 'r heap" where
  "store p v h = h[p := v]"

definition load :: "'r heap \<Rightarrow> addr \<Rightarrow> 'r" where
  "load h p = h ! p"

text \<open>
  The transport. One round trip answers with the pair \<^verbatim>\<open>(resp, err)\<close> that
  \<^verbatim>\<open>Get\<close> and \<^verbatim>\<open>Post\<close> return and with \<open>decoded\<close>, the object that resty
  unmarshalled from the body for the request's result pointer (\<open>None\<close> when it
  unmarshalled nothing). A \<^verbatim>\<open>*resty.Client\<close> is its round trip.
\<close>

record ('e, 'c, 'r) Reply =
  reply_resp :: "('e, 'c) Response option"
  reply_err :: go_error
  decoded :: "'r option"

record ('b, 'c, 'sc, 'e, 'r) Client =
  RoundTrip :: "('b, 'c, 'sc) Request \<Rightarrow> ('e, 'c, 'r) Reply"

text \<open>
  \<^verbatim>\<open>client.R()\<close>: a request with empty maps, no cookies, nothing set. The setters
  follow. \<^verbatim>\<open>http.Header.Set\<close> stores a header under the canonical form of its name
  (\<^verbatim>\<open>Username\<close> for \<^verbatim>\<open>username\<close>); header names do not distinguish case, and
  the map here keeps the name as the caller wrote it.
\<close>

definition R :: "('b, 'c, 'sc) Request" where
  "R = \<lparr>Ctx = None, ErrorSet = False, Header = Map.empty, QueryParam = Map.empty,
        Cookies = [], Token = [], Body = None, Result = None, Method = [], URL = []\<rparr>"

definition SetContext :: "'sc Context \<Rightarrow> ('b, 'c, 'sc) Request \<Rightarrow> ('b, 'c, 'sc) Request" where
  "SetContext ctx req = req\<lparr>Ctx := Some ctx\<rparr>"

definition SetError :: "('b, 'c, 'sc) Request \<Rightarrow> ('b, 'c, 'sc) Request" where
  "SetError req = req\<lparr>ErrorSet := True\<rparr>"

definition SetAuthToken :: "string \<Rightarrow> ('b, 'c, 'sc) Request \<Rightarrow> ('b, 'c, 'sc) Request" where
  "SetAuthToken token req = req\<lparr>Token := token\<rparr>"

definition SetHeader ::
  "string \<Rightarrow> string \<Rightarrow> ('b, 'c, 'sc) Request \<Rightarrow> ('b, 'c, 'sc) Request" where
  "SetHeader header v req = req\<lparr>Header := (Header req)(header \<mapsto> v)\<rparr>"


definition SetQueryParam ::
  "string \<Rightarrow> string \<Rightarrow> ('b, 'c, 'sc) Request \<Rightarrow> ('b, 'c, 'sc) Request" where
  "SetQueryParam param v req = req\<lparr>QueryParam := (QueryParam req)(param \<mapsto> v)\<rparr>"


definition SetCookie :: "'c \<Rightarrow> ('b, 'c, 'sc) Request \<Rightarrow> ('b, 'c, 'sc) Request" where
  "SetCookie hc req = req\<lparr>Cookies := Cookies req @ [hc]\<rparr>"

definition SetBody :: "'b \<Rightarrow> ('b, 'c, 'sc) Request \<Rightarrow> ('b, 'c, 'sc) Request" where
  "SetBody body req = req\<lparr>Body := Some body\<rparr>"

text \<open>
  \<^verbatim>\<open>SetResult(res)\<close> stores \<^verbatim>\<open>getPointer(res)\<close>: the argument itself when it
  is a pointer, and otherwise a pointer to a new object of the argument's type
  (\<^verbatim>\<open>reflect.New(vv.Type())\<close>, the zero value). The argument of a Go call is
  passed by value, so in the second case the callee holds a copy and no pointer to the
  caller's variable. The two cases are the two functions below; \<open>zero\<close> is the zero
  value of the result type.
\<close>

definition SetResult_pointer ::
  "addr \<Rightarrow> ('b, 'c, 'sc) Request \<Rightarrow> ('b, 'c, 'sc) Request" where
  "SetResult_pointer p req = req\<lparr>Result := Some p\<rparr>"

definition SetResult_value ::
  "'r \<Rightarrow> 'r \<Rightarrow> ('b, 'c, 'sc) Request \<Rightarrow> 'r heap \<Rightarrow> ('b, 'c, 'sc) Request \<times> 'r heap" where
  "SetResult_value zero res req h =
     (let (p, h') = new zero h in (req\<lparr>Result := Some p\<rparr>, h'))"

text \<open>
  \<^verbatim>\<open>Execute(method, url)\<close>: the round trip on the request with its method and URL
  set; what was unmarshalled is written through the request's result pointer.
\<close>

definition Execute ::
  "('b, 'c, 'sc, 'e, 'r) Client \<Rightarrow> string \<Rightarrow> string \<Rightarrow> ('b, 'c, 'sc) Request \<Rightarrow> 'r heap
     \<Rightarrow> (('e, 'c) Response option \<times> go_error) \<times> 'r heap" where
  "Execute c method url req h =
     (let reply = RoundTrip c (req\<lparr>Method := method, URL := url\<rparr>)
      in ((reply_resp reply, reply_err reply),
          (case Result req of
             Some p \<Rightarrow> (case decoded reply of Some v \<Rightarrow> store p v h | None \<Rightarrow> h)
           | None \<Rightarrow> h)))"

definition Get ::
  "('b, 'c, 'sc, 'e, 'r) Client \<Rightarrow> string \<Rightarrow> ('b, 'c, 'sc) Request \<Rightarrow> 'r heap
     \<Rightarrow> (('e, 'c) Response option \<times> go_error) \<times> 'r heap" where
  "Get c url req h = Execute c ''GET'' url req h"

definition Post ::
  "('b, 'c, 'sc, 'e, 'r) Client \<Rightarrow> string \<Rightarrow> ('b, 'c, 'sc) Request \<Rightarrow> 'r heap
     \<Rightarrow> (('e, 'c) Response option \<times> go_error) \<times> 'r heap" where
  "Post c url req h = Execute c ''POST'' url req h"

section \<open>The client handle\<close>

record Config =
  GetServiceTokenEndpoint :: string
  CreateCustomerEndpoint :: string
  CreateTransactionEndpoint :: string
  CreateServiceEndpoint :: string
  GetCustomerEndpoint :: string

record ('b, 'c, 'sc, 'e, 'r) GoArpa =
  basePath :: string
  restyClient :: "('b, 'c, 'sc, 'e, 'r) Client"
  Config :: Config

definition urlSeparator :: string where
  "urlSeparator = ''/''"

text \<open>\<^verbatim>\<open>strings.Join(elems, sep)\<close>.\<close>

fun Join :: "string list \<Rightarrow> string \<Rightarrow> string" where
  "Join [] sep = []"
| "Join [x] sep = x"
| "Join (x # y # ys) sep = x @ sep @ Join (y # ys) sep"

definition makeURL :: "string list \<Rightarrow> string" where
  "makeURL path = Join path urlSeparator"

text \<open>
  \<^verbatim>\<open>strings.TrimRight(s, cutset)\<close>: \<open>s\<close> without the trailing characters that
  occur in \<open>cutset\<close>. The library's cutset is the one-byte separator.
\<close>

definition TrimRight :: "string \<Rightarrow> string \<Rightarrow> string" where
  "TrimRight s cutset = rev (dropWhile (\<lambda>c. c \<in> set cutset) (rev s))"

text \<open>
  \<^verbatim>\<open>NewClient(basePath, options...)\<close>. \<^verbatim>\<open>resty.New()\<close> is the parameter
  \<open>resty_New\<close>. An option is a \<^verbatim>\<open>func(*GoArpa)\<close>: it may update the client in
  place, so it is a function from the client before to the client after, and the
  \<^verbatim>\<open>range\<close> loop is the left-to-right fold.
\<close>

definition NewClient_defaults ::
  "('b, 'c, 'sc, 'e, 'r) Client \<Rightarrow> string \<Rightarrow> ('b, 'c, 'sc, 'e, 'r) GoArpa" where
  "NewClient_defaults resty_New bp =
     \<lparr>basePath = TrimRight bp urlSeparator,
      restyClient = resty_New,
      Config =
        \<lparr>GetServiceTokenEndpoint = makeURL [''serv'', ''token'', ''GetServiceToken''],
         CreateCustomerEndpoint = makeURL [''serv'', ''api'', ''PostBussiness''],
         CreateTransactionEndpoint = makeURL [''serv'', ''api'', ''NewTransaction''],
         CreateServiceEndpoint = makeURL [''serv'', ''api'', ''PostService''],
         GetCustomerEndpoint = makeURL [''serv'', ''api'', ''GetBusiness'']\<rparr>\<rparr>"

fun apply_options ::
  "(('b, 'c, 'sc, 'e, 'r) GoArpa \<Rightarrow> ('b, 'c, 'sc, 'e, 'r) GoArpa) list
     \<Rightarrow> ('b, 'c, 'sc, 'e, 'r) GoArpa \<Rightarrow> ('b, 'c, 'sc, 'e, 'r) GoArpa" where
  "apply_options [] c = c"
| "apply_options (option # options) c = apply_options options (option c)"

definition NewClient ::
  "('b, 'c, 'sc, 'e, 'r) Client \<Rightarrow> string
     \<Rightarrow> (('b, 'c, 'sc, 'e, 'r) GoArpa \<Rightarrow> ('b, 'c, 'sc, 'e, 'r) GoArpa) list
     \<Rightarrow> ('b, 'c, 'sc, 'e, 'r) GoArpa" where
  "NewClient resty_New bp options = apply_options options (NewClient_defaults resty_New bp)"

definition SetRestyClient ::
  "('b, 'c, 'sc, 'e, 'r) Client \<Rightarrow> ('b, 'c, 'sc, 'e, 'r) GoArpa \<Rightarrow> ('b, 'c, 'sc, 'e, 'r) GoArpa" where
  "SetRestyClient rc g = g\<lparr>restyClient := rc\<rparr>"

section \<open>Requests of the client\<close>

text \<open>
  \<^verbatim>\<open>injectTracingHeaders(ctx, req)\<close>. \<open>GlobalTracer\<close> is
  \<^verbatim>\<open>opentracing.GlobalTracer()\<close>. \<^verbatim>\<open>Inject\<close> works on the request's own header
  map, so on both ways out after the call the request returned carries the map as the
  tracer left it. The request builders are methods of the client, which they read only
  for \<^verbatim>\<open>g.restyClient.R()\<close>, the request \<open>R\<close>; the transport of the client
  comes in when the request is executed.
\<close>

definition injectTracingHeaders ::
  "'sc Tracer \<Rightarrow> 'sc Context \<Rightarrow> ('b, 'c, 'sc) Request \<Rightarrow> ('b, 'c, 'sc) Request" where
  "injectTracingHeaders GlobalTracer ctx req =
     (case Span ctx of
        None \<Rightarrow> req
      | Some span \<Rightarrow>
          (let tracer = (case TracerValue ctx of Some t \<Rightarrow> t | None \<Rightarrow> GlobalTracer);
               (carrier, e) = tracer span (Header req)
           in case e of
                Some _ \<Rightarrow> req\<lparr>Header := carrier\<rparr>
              | None \<Rightarrow> req\<lparr>Header := carrier\<rparr>))"

definition GetRequest ::
  "'sc Tracer \<Rightarrow> 'sc Context \<Rightarrow> ('b, 'c, 'sc) Request" where
  "GetRequest GlobalTracer ctx =
     injectTracingHeaders GlobalTracer ctx (SetError (SetContext ctx R))"

definition GetRequestWithBearerAuthNoCache ::
  "'sc Tracer \<Rightarrow> 'sc Context \<Rightarrow> string \<Rightarrow> ('b, 'c, 'sc) Request" where
  "GetRequestWithBearerAuthNoCache GlobalTracer ctx token =
     SetHeader ''Cache-Control'' ''no-cache''
       (SetHeader ''Content-Type'' ''application/json''
          (SetAuthToken token (GetRequest GlobalTracer ctx)))"

definition GetRequestWithBearerAuth ::
  "'sc Tracer \<Rightarrow> 'sc Context \<Rightarrow> string \<Rightarrow> ('b, 'c, 'sc) Request" where
  "GetRequestWithBearerAuth GlobalTracer ctx token =
     SetHeader ''Content-Type'' ''application/json''
       (SetAuthToken token (GetRequest GlobalTracer ctx))"

text \<open>
  \<^verbatim>\<open>cookie[0]\<close> on an empty slice is a run-time panic (index out of range); the
  builder and the operations that call it return the panic or their result.
\<close>

datatype panic = IndexOutOfRange

definition GetRequestWithBearerAuthWithCookie ::
  "'sc Tracer \<Rightarrow> 'sc Context \<Rightarrow> string \<Rightarrow> 'c list \<Rightarrow> panic + ('b, 'c, 'sc) Request" where
  "GetRequestWithBearerAuthWithCookie GlobalTracer ctx token cookie =
     (case cookie of
        [] \<Rightarrow> Inl IndexOutOfRange
      | c0 # _ \<Rightarrow>
          Inr (SetHeader ''Content-Type'' ''application/json''
                 (SetCookie c0 (SetAuthToken token (GetRequest GlobalTracer ctx)))))"

section \<open>Response objects (token.go, models.go)\<close>




record CreateCustomerResponse =
  BusinessCode :: string
  BusinessID :: string
  Existed :: bool

definition CreateCustomerResponse_zero :: CreateCustomerResponse where
  "CreateCustomerResponse_zero = \<lparr>BusinessCode = [], BusinessID = [], Existed = False\<rparr>"

record Datum =
  TransactionID :: "64 word"
  TransNumber :: "64 word"
  TransLineID :: "64 word"
  ItemID :: "64 word"





record ('d, 'x) GetCustomerResponse =
  GData :: "'d list"
  GError :: "'x option"

definition GetCustomerResponse_zero :: "('d, 'x) GetCustomerResponse" where
  "GetCustomerResponse_zero = \<lparr>GData = [], GError = None\<rparr>"

section \<open>Endpoint operations\<close>

text \<open>
  Every operation takes, before the arguments of the Go method, the global tracer and
  the two methods of \<^verbatim>\<open>HTTPErrorResponse\<close>. A pointer result is an option, nil is
  \<open>None\<close>; the error result is the \<^verbatim>\<open>*APIError\<close> or nil. The local result object
  of an operation is allocated in a heap that is empty when the operation starts.
\<close>





text \<open>
  The three creating operations declare the local \<^verbatim>\<open>response\<close>, pass it to
  \<^verbatim>\<open>SetResult\<close> by value, and return \<^verbatim>\<open>&response\<close>.
\<close>

definition CreateCustomer ::
  "'sc Tracer \<Rightarrow> ('e \<Rightarrow> bool) \<Rightarrow> ('e \<Rightarrow> string) \<Rightarrow> ('b, 'c, 'sc, 'e, CreateCustomerResponse) GoArpa
     \<Rightarrow> 'sc Context \<Rightarrow> string \<Rightarrow> 'b \<Rightarrow> CreateCustomerResponse option \<times> APIError option" where
  "CreateCustomer GlobalTracer NotEmpty ErrString g ctx accessToken customer =
     (let errMessage = ''could not create customer'';
          (response, h) = new CreateCustomerResponse_zero [];
          (req, h1) =
            SetResult_value CreateCustomerResponse_zero (load h response)
              (SetBody customer (GetRequestWithBearerAuth GlobalTracer ctx accessToken)) h;
          ((resp, err), h') =
            Post (restyClient g) (basePath g @ ''/'' @ CreateCustomerEndpoint (Config g)) req h1
      in case checkForError NotEmpty ErrString resp err errMessage of
           Some e \<Rightarrow> (None, Some e)
         | None \<Rightarrow> (Some (load h' response), None))"



text \<open>
  The two customer lookups allocate the result object, pass the pointer to
  \<^verbatim>\<open>SetResult\<close>, and return it. The query keys \<^verbatim>\<open>constant.MobileKey\<close> and
  \<^verbatim>\<open>constant.BusinessCodeKey\<close> are declared in the package \<^verbatim>\<open>shared/constant\<close>
  and are parameters. \<^verbatim>\<open>fmt.Sprintf("%s/%s", a, b)\<close> is \<open>a\<close>, a slash, \<open>b\<close>.
\<close>

definition GetCustomerByMobile ::
  "'sc Tracer \<Rightarrow> ('e \<Rightarrow> bool) \<Rightarrow> ('e \<Rightarrow> string) \<Rightarrow> string
     \<Rightarrow> ('b, 'c, 'sc, 'e, ('d, 'x) GetCustomerResponse) GoArpa
     \<Rightarrow> 'sc Context \<Rightarrow> string \<Rightarrow> 'c list \<Rightarrow> string
     \<Rightarrow> panic + (('d, 'x) GetCustomerResponse option \<times> APIError option)" where
  "GetCustomerByMobile GlobalTracer NotEmpty ErrString MobileKey g ctx accessToken cookie mobile =
     (let errMessage = ''could not get customer info'';
          (result, h) = new GetCustomerResponse_zero []
      in case GetRequestWithBearerAuthWithCookie GlobalTracer ctx accessToken cookie of
           Inl p \<Rightarrow> Inl p
         | Inr req \<Rightarrow>
             (let ((resp, err), h') =
                    Get (restyClient g) (basePath g @ ''/'' @ GetCustomerEndpoint (Config g))
                      (SetResult_pointer result (SetQueryParam MobileKey mobile req)) h
              in case checkForError NotEmpty ErrString resp err errMessage of
                   Some e \<Rightarrow> Inr (None, Some e)
                 | None \<Rightarrow> Inr (Some (load h' result), None)))"

definition GetCustomerByBusinessCode ::
  "'sc Tracer \<Rightarrow> ('e \<Rightarrow> bool) \<Rightarrow> ('e \<Rightarrow> string) \<Rightarrow> string
     \<Rightarrow> ('b, 'c, 'sc, 'e, ('d, 'x) GetCustomerResponse) GoArpa
     \<Rightarrow> 'sc Context \<Rightarrow> string \<Rightarrow> 'c list \<Rightarrow> string
     \<Rightarrow> panic + (('d, 'x) GetCustomerResponse option \<times> APIError option)" where
  "GetCustomerByBusinessCode GlobalTracer NotEmpty ErrString BusinessCodeKey g ctx accessToken cookie businessCode =
     (let errMessage = ''could not get customer info'';
          (result, h) = new GetCustomerResponse_zero []
      in case GetRequestWithBearerAuthWithCookie GlobalTracer ctx accessToken cookie of
           Inl p \<Rightarrow> Inl p
         | Inr req \<Rightarrow>
             (let ((resp, err), h') =
                    Get (restyClient g) (basePath g @ ''/'' @ GetCustomerEndpoint (Config g))
                      (SetResult_pointer result (SetQueryParam BusinessCodeKey businessCode req)) h
              in case checkForError NotEmpty ErrString resp err errMessage of
                   Some e \<Rightarrow> Inr (None, Some e)
                 | None \<Rightarrow> Inr (Some (load h' result), None)))"

section \<open>StringOrArray (models.go)\<close>

text \<open>
  \<^verbatim>\<open>type StringOrArray []string\<close>: a slice is nil (\<open>None\<close>) or has elements.
  The two methods call \<^verbatim>\<open>json.Marshal\<close> and \<^verbatim>\<open>json.Unmarshal\<close> at the types
  \<^verbatim>\<open>string\<close> and \<^verbatim>\<open>[]string\<close>. These four library functions are the fields
  of the record \<open>json\<close>, which the methods take as their first argument. A marshaller
  returns the error or the bytes; an unmarshaller returns the error or the value of the
  target variable after the call, the variable being declared just before the call and
  so holding its zero value.
\<close>

type_synonym StringOrArray = "string list option"

record json =
  Marshal_string :: "string \<Rightarrow> string + string"
  Marshal_strings :: "string list option \<Rightarrow> string + string"
  Unmarshal_string :: "string \<Rightarrow> string + string"
  Unmarshal_strings :: "string \<Rightarrow> string + string list option"

text \<open>
  \<^verbatim>\<open>MarshalJSON\<close>: the length is 1 exactly for \<open>Some [x]\<close>, and then
  the element at index 0 is \<open>x\<close>.
\<close>

definition MarshalJSON :: "json \<Rightarrow> StringOrArray \<Rightarrow> string + string" where
  "MarshalJSON J s =
     (case s of
        Some [x] \<Rightarrow> Marshal_string J x
      | _ \<Rightarrow> Marshal_strings J s)"

text \<open>
  \<^verbatim>\<open>UnmarshalJSON\<close> returns the error, or the value it stores in \<^verbatim>\<open>*s\<close>. The
  byte at index 0 is read only when the length exceeds 1.
\<close>

definition UnmarshalJSON :: "json \<Rightarrow> string \<Rightarrow> string + StringOrArray" where
  "UnmarshalJSON J data =
     (if length data > 1 \<and> hd data = CHR ''['' then
        (case Unmarshal_strings J data of
           Inl e \<Rightarrow> Inl e
         | Inr obj \<Rightarrow> Inr obj)
      else
        (case Unmarshal_string J data of
           Inl e \<Rightarrow> Inl e
         | Inr obj \<Rightarrow> Inr (Some [obj])))"

subsection \<open>encoding/json on strings and string slices\<close>

text \<open>
  A model of the four library functions, for running the methods on concrete values.
  The encoder is \<^verbatim>\<open>encoding/json\<close>'s on 7-bit text (with its HTML escaping); bytes
  from 0x80 on are copied, as the library does for valid UTF-8 other than U+2028 and
  U+2029. The decoder reads the literal bytes and the escapes of 7-bit characters, and
  copies bytes from 0x80 on; an escape of a code point above 0x7f is outside the model
  and is answered with an error. The JSON literal \<^verbatim>\<open>null\<close> leaves a string
  target as it is and makes a slice target nil.
\<close>

definition hex :: string where
  "hex = ''0123456789abcdef''"

definition escape_byte :: "char \<Rightarrow> string" where
  "escape_byte c =
     (let b = (of_char c :: nat) in
      if 0x80 \<le> b then [c]
      else if c = CHR 0x5C \<or> c = CHR 0x22 then [CHR 0x5C, c]
      else if c = CHR 0x08 then [CHR 0x5C, CHR ''b'']
      else if c = CHR 0x0C then [CHR 0x5C, CHR ''f'']
      else if c = CHR 0x0A then [CHR 0x5C, CHR ''n'']
      else if c = CHR 0x0D then [CHR 0x5C, CHR ''r'']
      else if c = CHR 0x09 then [CHR 0x5C, CHR ''t'']
      else if b < 0x20 \<or> c = CHR ''&'' \<or> c = CHR ''<'' \<or> c = CHR ''>'' then
        [CHR 0x5C, CHR ''u'', CHR ''0'', CHR ''0'', hex ! (b div 16), hex ! (b mod 16)]
      else [c])"

definition quote :: "string \<Rightarrow> string" where
  "quote s = [CHR 0x22] @ concat (map escape_byte s) @ [CHR 0x22]"

definition marshal_strings :: "string list option \<Rightarrow> string + string" where
  "marshal_strings s =
     (case s of
        None \<Rightarrow> Inr ''null''
      | Some xs \<Rightarrow> Inr (''['' @ Join (map quote xs) '','' @ '']''))"

definition hexval :: "char \<Rightarrow> nat option" where
  "hexval c =
     (let b = (of_char c :: nat) in
      if 48 \<le> b \<and> b \<le> 57 then Some (b - 48)
      else if 97 \<le> b \<and> b \<le> 102 then Some (b - 87)
      else if 65 \<le> b \<and> b \<le> 70 then Some (b - 55)
      else None)"

definition unescape :: "char \<Rightarrow> char option" where
  "unescape c =
     (if c = CHR 0x22 \<or> c = CHR 0x5C \<or> c = CHR ''/'' then Some c
      else if c = CHR ''b'' then Some (CHR 0x08)
      else if c = CHR ''f'' then Some (CHR 0x0C)
      else if c = CHR ''n'' then Some (CHR 0x0A)
      else if c = CHR ''r'' then Some (CHR 0x0D)
      else if c = CHR ''t'' then Some (CHR 0x09)
      else None)"

definition getu4 :: "string \<Rightarrow> nat option" where
  "getu4 s =
     (case map hexval (take 4 s) of
        [Some a, Some b, Some c, Some d] \<Rightarrow> Some (((a * 16 + b) * 16 + c) * 16 + d)
      | _ \<Rightarrow> None)"

text \<open>
  The body of a string literal after its opening quote: the decoded text and what
  follows the closing quote.
\<close>

fun unquote_body :: "string \<Rightarrow> (string \<times> string) option" where
  "unquote_body [] = None"
| "unquote_body (c # cs) =
     (if c = CHR 0x22 then Some ([], cs)
      else if c = CHR 0x5C then
        (case cs of
           [] \<Rightarrow> None
         | e # cs' \<Rightarrow>
             if e = CHR ''u'' then
               (case getu4 cs' of
                  None \<Rightarrow> None
                | Some n \<Rightarrow>
                    if n < 0x80 then
                      map_option (\<lambda>(s, r). (char_of n # s, r)) (unquote_body (drop 4 cs'))
                    else None)
             else
               (case unescape e of
                  None \<Rightarrow> None
                | Some ch \<Rightarrow> map_option (\<lambda>(s, r). (ch # s, r)) (unquote_body cs')))
      else if (of_char c :: nat) < 0x20 then None
      else map_option (\<lambda>(s, r). (c # s, r)) (unquote_body cs))"

definition isSpace :: "char \<Rightarrow> bool" where
  "isSpace c = (c = CHR '' '' \<or> c = CHR 0x09 \<or> c = CHR 0x0D \<or> c = CHR 0x0A)"

definition skip_ws :: "string \<Rightarrow> string" where
  "skip_ws s = dropWhile isSpace s"

definition trim_ws :: "string \<Rightarrow> string" where
  "trim_ws s = rev (skip_ws (rev (skip_ws s)))"

text \<open>An element of a string array: a string literal, or \<^verbatim>\<open>null\<close> for the empty string.\<close>

definition parse_elem :: "string \<Rightarrow> (string \<times> string) option" where
  "parse_elem s =
     (if prefix ''null'' s then Some ([], drop 4 s)
      else case s of
             [] \<Rightarrow> None
           | c # cs \<Rightarrow> if c = CHR 0x22 then unquote_body cs else None)"

text \<open>The elements after the opening bracket, up to the closing one.\<close>

function parse_elems :: "string \<Rightarrow> (string list \<times> string) option" where
  "parse_elems s =
     (case parse_elem (skip_ws s) of
        None \<Rightarrow> None
      | Some (x, r) \<Rightarrow>
          (case skip_ws r of
             [] \<Rightarrow> None
           | c # r' \<Rightarrow>
               if c = CHR '','' then map_option (\<lambda>(xs, t). (x # xs, t)) (parse_elems r')
               else if c = CHR '']'' then Some ([x], r')
               else None))"
  by pat_completeness auto
termination
proof (relation "measure length", goal_cases)
  case 1
  then show ?case by simp
next
  case (2 s p x r c r')
  have body: "length t < length u" if "unquote_body u = Some (y, t)" for u y t
    using that
  proof (induction u arbitrary: y t rule: unquote_body.induct)
    case 1
    then show ?case by simp
  next
    case (2 c cs)
    then show ?case
      by (fastforce split: if_splits list.splits option.splits)
  qed
  have elem: "length t < length u" if "parse_elem u = Some (y, t)" for u y t
    using that
    by (auto simp: parse_elem_def prefix_def split: if_splits list.splits dest: body)
  have ws: "length (skip_ws u) \<le> length u" for u
    by (simp add: skip_ws_def length_dropWhile_le)
  have "length r < length (skip_ws s)" using 2 elem by metis
  moreover have "length r' < length (skip_ws r)" using 2 by simp
  moreover have "length (skip_ws r) \<le> length r" by (rule ws)
  moreover have "length (skip_ws s) \<le> length s" by (rule ws)
  ultimately show ?case by simp
qed

declare parse_elems.simps [simp del]

definition json_error :: string where
  "json_error = ''json: cannot unmarshal''"

definition unmarshal_string :: "string \<Rightarrow> string + string" where
  "unmarshal_string data =
     (let d = trim_ws data in
      if d = ''null'' then Inr []
      else case d of
             [] \<Rightarrow> Inl json_error
           | c # cs \<Rightarrow>
               if c = CHR 0x22 then
                 (case unquote_body cs of
                    Some (s, []) \<Rightarrow> Inr s
                  | _ \<Rightarrow> Inl json_error)
               else Inl json_error)"

definition unmarshal_strings :: "string \<Rightarrow> string + string list option" where
  "unmarshal_strings data =
     (let d = trim_ws data in
      if d = ''null'' then Inr None
      else case d of
             [] \<Rightarrow> Inl json_error
           | c # cs \<Rightarrow>
               if c = CHR ''['' then
                 (case skip_ws cs of
                    [] \<Rightarrow> Inl json_error
                  | c' # cs' \<Rightarrow>
                      if c' = CHR '']'' then (if cs' = [] then Inr (Some []) else Inl json_error)
                      else (case parse_elems cs of
                              Some (xs, []) \<Rightarrow> Inr (Some xs)
                            | _ \<Rightarrow> Inl json_error))
               else Inl json_error)"

definition encoding_json :: json where
  "encoding_json =
     \<lparr>Marshal_string = (\<lambda>s. Inr (quote s)), Marshal_strings = marshal_strings,
      Unmarshal_string = unmarshal_string, Unmarshal_strings = unmarshal_strings\<rparr>"


section \<open>Scenarios\<close>

text \<open>
  Concrete tracers, transports and contexts on which the operations are run below.
  Cookies and error bodies are strings here, request bodies and span contexts are
  trivial.
\<close>

definition noop_tracer :: "unit Tracer" where
  "noop_tracer sc carrier = (carrier, None)"

text \<open>A tracer that writes its header into the carrier and then reports a failure.\<close>

definition tracer_writes_then_fails :: "unit Tracer" where
  "tracer_writes_then_fails sc carrier =
     (carrier(''Uber-Trace-Id'' \<mapsto> ''1f:1f:0:1''), Some ''opentracing: carrier rejected'')"

definition ctx_background :: "unit Context" where
  "ctx_background = \<lparr>Span = None, TracerValue = None\<rparr>"

definition ctx_span_failing_tracer :: "unit Context" where
  "ctx_span_failing_tracer = \<lparr>Span = Some (), TracerValue = Some tracer_writes_then_fails\<rparr>"

text \<open>The request as \<open>R\<close> makes it, at the types of the scenarios.\<close>

definition fresh_request :: "(unit, string, unit) Request" where
  "fresh_request = R"

definition NotEmpty_text :: "string \<Rightarrow> bool" where
  "NotEmpty_text e = (e \<noteq> [])"

definition String_text :: "string \<Rightarrow> string" where
  "String_text e = e"


text \<open>
  The mock server of the create-customer round trip: it answers the POST to the
  create-customer path of \<^verbatim>\<open>http://mock.local\<close> with status 200 and the JSON body
  of the scenario, which resty unmarshals to the object \<open>decoded\<close> for the request's
  result pointer; anything else gets a 404.
\<close>

definition create_customer_body :: string where
  "create_customer_body
     = ''{\"BussinesCode\":\"127013\",\"BussinessID\":\"42\",\"Existed\":false}''"

definition not_found :: "(string, string, 'r) Reply" where
  "not_found =
     \<lparr>reply_resp = Some \<lparr>StatusCode = 404, Status = ''404 Not Found'', Error = None,
                          RespString = [], RespCookies = []\<rparr>,
      reply_err = None, decoded = None\<rparr>"

definition mock_create_customer_server ::
  "(unit, string, unit, string, CreateCustomerResponse) Client" where
  "mock_create_customer_server =
     \<lparr>RoundTrip = (\<lambda>req.
        if Method req = ''POST'' \<and> URL req = ''http://mock.local/serv/api/PostBussiness'' then
          \<lparr>reply_resp = Some \<lparr>StatusCode = 200, Status = ''200 OK'', Error = None,
                               RespString = create_customer_body, RespCookies = []\<rparr>,
           reply_err = None,
           decoded = Some \<lparr>BusinessCode = ''127013'', BusinessID = ''42'', Existed = False\<rparr>\<rparr>
        else not_found)\<rparr>"



text \<open>A tracer that reports a failure and leaves the carrier as it was.\<close>

definition tracer_rejects :: "unit Tracer" where
  "tracer_rejects sc carrier = (carrier, Some ''opentracing: unsupported format'')"

definition ctx_span_rejecting_tracer :: "unit Context" where
  "ctx_span_rejecting_tracer = \<lparr>Span = Some (), TracerValue = Some tracer_rejects\<rparr>"


text \<open>
  A customer server at \<^verbatim>\<open>http://arpa.example\<close>: it answers the lookup by mobile
  number that carries exactly the session cookie with a customer record; anything else
  gets a 404.
\<close>

definition session_lookup_server ::
  "(unit, string, unit, string, (string, unit) GetCustomerResponse) Client" where
  "session_lookup_server =
     \<lparr>RoundTrip = (\<lambda>req.
        if Method req = ''GET'' \<and> URL req = ''http://arpa.example/serv/api/GetBusiness''
           \<and> Cookies req = [''ASP.NET_SessionId=abc'']
           \<and> QueryParam req ''Mobile'' = Some ''09120000000''
        then
          \<lparr>reply_resp = Some \<lparr>StatusCode = 200, Status = ''200 OK'', Error = None,
                               RespString = [], RespCookies = []\<rparr>,
           reply_err = None,
           decoded = Some \<lparr>GData = [''customer 127013''], GError = None\<rparr>\<rparr>
        else not_found)\<rparr>"

section \<open>Properties of the error model\<close>

lemma Contains_iff: "Contains s substr \<longleftrightarrow> (\<exists>ps ss. s = ps @ substr @ ss)"
proof (induction s)
  case Nil
  then show ?case by auto
next
  case (Cons c s)
  show ?case
  proof
    assume "Contains (c # s) substr"
    then consider "prefix substr (c # s)" | "Contains s substr" by auto
    then show "\<exists>ps ss. c # s = ps @ substr @ ss"
    proof cases
      case 1
      then obtain ss where "c # s = substr @ ss" by (auto simp: prefix_def)
      then have "c # s = [] @ substr @ ss" by simp
      then show ?thesis by blast
    next
      case 2
      with Cons.IH obtain ps ss where "s = ps @ substr @ ss" by blast
      then have "c # s = (c # ps) @ substr @ ss" by simp
      then show ?thesis by blast
    qed
  next
    assume "\<exists>ps ss. c # s = ps @ substr @ ss"
    then obtain ps ss where eq: "c # s = ps @ substr @ ss" by blast
    show "Contains (c # s) substr"
    proof (cases ps)
      case Nil
      with eq have "prefix substr (c # s)" by (simp add: prefix_def)
      then show ?thesis by simp
    next
      case (Cons p ps')
      with eq have "s = ps' @ substr @ ss" by simp
      with Cons.IH have "Contains s substr" by blast
      then show ?thesis by simp
    qed
  qed
qed


text \<open>
  C6. The error kind is computed by substring match on the error text: it is the
  invalid-grant kind exactly when the error is not nil and its text contains
  \<^verbatim>\<open>invalid_grant\<close>, and the unknown kind exactly when that is not so, which
  includes the nil error.
\<close>

theorem ParseAPIErrType_substring_match:
  "(ParseAPIErrType err = APIErrTypeInvalidGrant
      \<longleftrightarrow> (\<exists>ps ss. err = Some (ps @ ''invalid_grant'' @ ss)))
   \<and> (ParseAPIErrType err = APIErrTypeUnknown
      \<longleftrightarrow> \<not> (\<exists>ps ss. err = Some (ps @ ''invalid_grant'' @ ss)))
   \<and> ParseAPIErrType None = APIErrTypeUnknown"
proof -
  have kinds: "APIErrTypeInvalidGrant \<noteq> APIErrTypeUnknown"
    by (simp add: APIErrTypeInvalidGrant_def APIErrTypeUnknown_def)
  show ?thesis
  proof (cases err)
    case None
    then show ?thesis using kinds by (simp add: ParseAPIErrType_def)
  next
    case (Some t)
    then show ?thesis using kinds by (auto simp: ParseAPIErrType_def Contains_iff)
  qed
qed

theorem ParseAPIErrType_substring_match_witness:
  "ParseAPIErrType (Some ''oauth2: invalid_grant (bad credentials)'') = APIErrTypeInvalidGrant
   \<and> ParseAPIErrType (Some ''connection refused'') = APIErrTypeUnknown
   \<and> ParseAPIErrType None = APIErrTypeUnknown"
proof -
  have "''oauth2: invalid_grant (bad credentials)''
          = ''oauth2: '' @ ''invalid_grant'' @ '' (bad credentials)''"
    by simp
  then have 1: "ParseAPIErrType (Some ''oauth2: invalid_grant (bad credentials)'')
                  = APIErrTypeInvalidGrant"
    using ParseAPIErrType_substring_match
            [of "Some ''oauth2: invalid_grant (bad credentials)''"]
    by blast
  have "\<not> Contains ''connection refused'' ''invalid_grant''"
    by simp
  then have "\<not> (\<exists>ps ss. Some ''connection refused'' = Some (ps @ ''invalid_grant'' @ ss))"
    by (simp add: Contains_iff)
  then have 2: "ParseAPIErrType (Some ''connection refused'') = APIErrTypeUnknown"
    using ParseAPIErrType_substring_match [of "Some ''connection refused''"]
    by blast
  from 1 2 show ?thesis
    using ParseAPIErrType_substring_match [of None] by blast
qed

text \<open>
  The HTTP-error branch of \<open>checkForError\<close>: for a response with an error status and
  no transport error the code is the status code; the message is the status line, a
  colon and the rendering of the structured error body when that body is present and not
  empty, and the bare status line otherwise; the kind is the unknown kind, whatever the
  response holds.
\<close>

lemma checkForError_HTTP_error_branch:
  assumes "IsError r"
  shows "\<exists>e. checkForError NotEmpty ErrString (Some r) None errMessage = Some e
           \<and> Code e = StatusCode r
           \<and> (\<forall>b. Error r = Some b \<and> NotEmpty b
                  \<longrightarrow> Message e = Status r @ '': '' @ ErrString b)
           \<and> (Error r = None \<or> (\<exists>b. Error r = Some b \<and> \<not> NotEmpty b)
                  \<longrightarrow> Message e = Status r)
           \<and> Type e = APIErrTypeUnknown"
  using assms by (auto simp: checkForError_def ParseAPIErrType_def)

text \<open>
  C1, on the code. For the response \<^verbatim>\<open>400 Bad Request\<close> whose structured error body
  renders \<^verbatim>\<open>invalid_grant\<close>, with no transport error, \<open>checkForError\<close> returns the
  code 400 and the message made of the status line and the rendering, as the claim says,
  but the unknown kind: the kind is \<open>ParseAPIErrType\<close> of the transport error, which is
  nil in this branch, so no text is inspected, while the inspection used for transport
  failures gives the invalid-grant kind on the message and on the rendering.
\<close>

theorem checkForError_HTTP_error_kind_ignores_text:
  "checkForError NotEmpty_text String_text
       (Some \<lparr>StatusCode = 400, Status = ''400 Bad Request'', Error = Some ''invalid_grant'',
              RespString = ''{\"error\":\"invalid_grant\"}'',
              RespCookies = ([] :: string list)\<rparr>)
       None ''could not get token''
     = Some \<lparr>Code = 400, Message = ''400 Bad Request: invalid_grant'', Type = ''unknown''\<rparr>
   \<and> ParseAPIErrType (Some ''400 Bad Request: invalid_grant'') = ''oauth: invalid grant''
   \<and> ParseAPIErrType (Some ''invalid_grant'') = ''oauth: invalid grant''"
proof -
  have kind: "ParseAPIErrType None = ''unknown''"
    by (simp add: ParseAPIErrType_def APIErrTypeUnknown_def)
  have 1: "checkForError NotEmpty_text String_text
       (Some \<lparr>StatusCode = 400, Status = ''400 Bad Request'', Error = Some ''invalid_grant'',
              RespString = ''{\"error\":\"invalid_grant\"}'',
              RespCookies = ([] :: string list)\<rparr>)
       None ''could not get token''
     = Some \<lparr>Code = 400, Message = ''400 Bad Request: invalid_grant'', Type = ''unknown''\<rparr>"
    by (simp add: checkForError_def IsError_def NotEmpty_text_def String_text_def kind)
  have 2: "ParseAPIErrType (Some ''400 Bad Request: invalid_grant'') = ''oauth: invalid grant''"
    by (simp add: ParseAPIErrType_def APIErrTypeInvalidGrant_def)
  have 3: "ParseAPIErrType (Some ''invalid_grant'') = ''oauth: invalid grant''"
    by (simp add: ParseAPIErrType_def APIErrTypeInvalidGrant_def)
  from 1 2 3 show ?thesis by (intro conjI)
qed

text \<open>
  C3. \<open>checkForError\<close> is a function of the response, the transport error and the
  context message, defined on every such triple. It returns nil exactly when the
  transport error is absent, the response is not nil and the response has no HTTP error
  status. In every other case it returns an \<open>APIError\<close> from the one failure branch
  whose condition holds: the transport failure (a transport error is present), the empty
  response (no transport error, nil response; message \<^verbatim>\<open>empty response\<close>, code 0), or
  the HTTP error status (no transport error, a response with an error status). The three
  conditions exclude one another and the success condition.
\<close>

theorem checkForError_four_outcomes:
  "(checkForError NotEmpty ErrString resp err errMessage = None
      \<longleftrightarrow> err = None \<and> (\<exists>r. resp = Some r \<and> \<not> IsError r))
   \<and> (\<forall>t. err = Some t \<longrightarrow>
          checkForError NotEmpty ErrString resp err errMessage
            = Some \<lparr>Code = 0, Message = errMessage @ '': '' @ t,
                    Type = ParseAPIErrType (Some t)\<rparr>)
   \<and> (err = None \<and> resp = None \<longrightarrow>
          checkForError NotEmpty ErrString resp err errMessage
            = Some \<lparr>Code = 0, Message = ''empty response'', Type = APIErrTypeUnknown\<rparr>)
   \<and> (\<forall>r. err = None \<and> resp = Some r \<and> IsError r \<longrightarrow>
          (\<exists>e. checkForError NotEmpty ErrString resp err errMessage = Some e
                \<and> Code e = StatusCode r \<and> Type e = APIErrTypeUnknown
                \<and> (Message e = Status r
                     \<or> (\<exists>b. Error r = Some b \<and> Message e = Status r @ '': '' @ ErrString b))))"
  by (cases err; cases resp)
     (auto simp: checkForError_def ParseAPIErrType_def Wrap_def split: option.splits)

theorem checkForError_four_outcomes_witness:
  "checkForError (\<lambda>b. b \<noteq> []) (\<lambda>b. b)
      (Some \<lparr>StatusCode = 200, Status = ''200 OK'', Error = None, RespString = ''{}'',
             RespCookies = ([] :: unit list)\<rparr>) None ''could not get token'' = None
   \<and> checkForError (\<lambda>b. b \<noteq> []) (\<lambda>b. b)
        (None :: (string, unit) Response option) (Some ''dial tcp: timeout'')
        ''could not get token''
       = Some \<lparr>Code = 0, Message = ''could not get token: dial tcp: timeout'',
               Type = ''unknown''\<rparr>
   \<and> checkForError (\<lambda>b. b \<noteq> []) (\<lambda>b. b)
        (None :: (string, unit) Response option) None ''could not get token''
       = Some \<lparr>Code = 0, Message = ''empty response'', Type = ''unknown''\<rparr>
   \<and> (\<exists>e. checkForError (\<lambda>b. b \<noteq> []) (\<lambda>b. b)
              (Some \<lparr>StatusCode = 502, Status = ''502 Bad Gateway'', Error = None,
                     RespString = [], RespCookies = ([] :: unit list)\<rparr>)
              None ''could not get token'' = Some e
          \<and> Code e = 502 \<and> Type e = ''unknown'')"
proof -
  let ?ok = "\<lparr>StatusCode = 200, Status = ''200 OK'', Error = (None :: string option),
              RespString = ''{}'', RespCookies = ([] :: unit list)\<rparr>"
  have "\<not> IsError ?ok" by (simp add: IsError_def)
  then have 1: "checkForError (\<lambda>b. b \<noteq> []) (\<lambda>b. b) (Some ?ok) None ''could not get token''
                  = None"
    using checkForError_four_outcomes
            [of "\<lambda>b. b \<noteq> []" "\<lambda>b. b" "Some ?ok" None "''could not get token''"]
    by blast
  have unk: "ParseAPIErrType (Some ''dial tcp: timeout'') = ''unknown''"
    by (simp add: ParseAPIErrType_def APIErrTypeUnknown_def)
  have 2: "checkForError (\<lambda>b. b \<noteq> []) (\<lambda>b. b)
             (None :: (string, unit) Response option) (Some ''dial tcp: timeout'')
             ''could not get token''
           = Some \<lparr>Code = 0, Message = ''could not get token: dial tcp: timeout'',
                   Type = ''unknown''\<rparr>"
    using checkForError_four_outcomes
            [of "\<lambda>b. b \<noteq> []" "\<lambda>b. b" "None :: (string, unit) Response option"
                "Some ''dial tcp: timeout''" "''could not get token''"]
          unk
    by simp
  have 3: "checkForError (\<lambda>b. b \<noteq> []) (\<lambda>b. b)
             (None :: (string, unit) Response option) None ''could not get token''
           = Some \<lparr>Code = 0, Message = ''empty response'', Type = ''unknown''\<rparr>"
    using checkForError_four_outcomes
            [of "\<lambda>b. b \<noteq> []" "\<lambda>b. b" "None :: (string, unit) Response option"
                None "''could not get token''"]
    by (simp add: APIErrTypeUnknown_def)
  let ?bad = "\<lparr>StatusCode = 502, Status = ''502 Bad Gateway'', Error = (None :: string option),
               RespString = [], RespCookies = ([] :: unit list)\<rparr>"
  have "(None :: go_error) = None \<and> Some ?bad = Some ?bad \<and> IsError ?bad"
    by (simp add: IsError_def)
  then have 4: "\<exists>e. checkForError (\<lambda>b. b \<noteq> []) (\<lambda>b. b) (Some ?bad) None
                     ''could not get token'' = Some e
                 \<and> Code e = 502 \<and> Type e = ''unknown''"
    using checkForError_four_outcomes
            [of "\<lambda>b. b \<noteq> []" "\<lambda>b. b" "Some ?bad" None "''could not get token''",
             THEN conjunct2, THEN conjunct2, THEN conjunct2, THEN spec, of ?bad]
    by (auto simp: APIErrTypeUnknown_def)
  from 1 2 3 4 show ?thesis by (intro conjI)
qed


section \<open>Properties of the client handle and the request builder\<close>

lemma TrimRight_decompose:
  "\<exists>n. s = TrimRight s [c] @ replicate n c"
proof -
  let ?t = "takeWhile (\<lambda>x. x = c) (rev s)"
  let ?d = "dropWhile (\<lambda>x. x = c) (rev s)"
  have "rev s = ?t @ ?d" by simp
  then have split: "s = rev ?d @ rev ?t" by (metis rev_append rev_rev_ident)
  have "\<forall>x \<in> set ?t. x = c" by (auto dest: set_takeWhileD)
  then have "?t = replicate (length ?t) c"
    by (simp add: replicate_length_same)
  then have "rev ?t = replicate (length ?t) c"
    by (metis rev_replicate)
  moreover have "TrimRight s [c] = rev ?d" by (simp add: TrimRight_def)
  ultimately have "s = TrimRight s [c] @ replicate (length ?t) c"
    using split by simp
  then show ?thesis ..
qed

lemma TrimRight_no_trailing:
  "TrimRight s [c] = [] \<or> last (TrimRight s [c]) \<noteq> c"
proof (cases "dropWhile (\<lambda>x. x = c) (rev s)")
  case Nil
  then show ?thesis by (simp add: TrimRight_def)
next
  case (Cons y ys)
  then have "y \<noteq> c" using hd_dropWhile [of "\<lambda>x. x = c" "rev s"] by auto
  with Cons show ?thesis by (simp add: TrimRight_def)
qed

lemma apply_options_fold:
  "apply_options options c = fold (\<lambda>option c. option c) options c"
  by (induction options arbitrary: c) simp_all

text \<open>
  C7. For every base path and every list of options, \<open>NewClient\<close> first builds the
  client whose base path is the input without its trailing separators (the input is that
  base path followed by separators only, and the base path does not end in one) and whose
  five endpoint paths are the fixed suffixes joined with the separator, and then applies
  the options to it from left to right; with no option the result is that client.
\<close>

theorem NewClient_defaults_then_options:
  "NewClient resty_New bp options
     = fold (\<lambda>option c. option c) options (NewClient_defaults resty_New bp)
   \<and> NewClient resty_New bp [] = NewClient_defaults resty_New bp
   \<and> NewClient resty_New bp (options @ [option]) = option (NewClient resty_New bp options)
   \<and> basePath (NewClient_defaults resty_New bp) = TrimRight bp ''/''
   \<and> (\<exists>n. bp = basePath (NewClient_defaults resty_New bp) @ replicate n (CHR ''/''))
   \<and> (basePath (NewClient_defaults resty_New bp) = []
        \<or> last (basePath (NewClient_defaults resty_New bp)) \<noteq> CHR ''/'')
   \<and> restyClient (NewClient_defaults resty_New bp) = resty_New
   \<and> Config (NewClient_defaults resty_New bp)
       = \<lparr>GetServiceTokenEndpoint = ''serv/token/GetServiceToken'',
          CreateCustomerEndpoint = ''serv/api/PostBussiness'',
          CreateTransactionEndpoint = ''serv/api/NewTransaction'',
          CreateServiceEndpoint = ''serv/api/PostService'',
          GetCustomerEndpoint = ''serv/api/GetBusiness''\<rparr>"
proof -
  have base: "basePath (NewClient_defaults resty_New bp) = TrimRight bp [CHR ''/'']"
    by (simp add: NewClient_defaults_def urlSeparator_def)
  have "\<exists>n. bp = TrimRight bp [CHR ''/''] @ replicate n (CHR ''/'')"
    by (rule TrimRight_decompose)
  moreover have "TrimRight bp [CHR ''/''] = [] \<or> last (TrimRight bp [CHR ''/'']) \<noteq> CHR ''/''"
    by (rule TrimRight_no_trailing)
  moreover have "NewClient resty_New bp (options @ [option])
                   = option (NewClient resty_New bp options)"
    by (simp add: NewClient_def apply_options_fold)
  moreover have "Config (NewClient_defaults resty_New bp)
       = \<lparr>GetServiceTokenEndpoint = ''serv/token/GetServiceToken'',
          CreateCustomerEndpoint = ''serv/api/PostBussiness'',
          CreateTransactionEndpoint = ''serv/api/NewTransaction'',
          CreateServiceEndpoint = ''serv/api/PostService'',
          GetCustomerEndpoint = ''serv/api/GetBusiness''\<rparr>"
    by (simp add: NewClient_defaults_def makeURL_def urlSeparator_def)
  moreover have "NewClient resty_New bp options
     = fold (\<lambda>option c. option c) options (NewClient_defaults resty_New bp)"
    by (simp add: NewClient_def apply_options_fold)
  moreover have "NewClient resty_New bp [] = NewClient_defaults resty_New bp"
    by (simp add: NewClient_def)
  moreover have "restyClient (NewClient_defaults resty_New bp) = resty_New"
    by (simp add: NewClient_defaults_def)
  ultimately show ?thesis
    unfolding base by blast
qed



theorem NewClient_defaults_then_options_witness:
  "basePath (NewClient_defaults
               \<lparr>RoundTrip = (\<lambda>req :: (unit, unit, unit) Request.
                    \<lparr>reply_resp = (None :: (unit, unit) Response option), reply_err = None,
                     decoded = (None :: unit option)\<rparr>)\<rparr>
               ''https://arpa.example//'')
     = ''https://arpa.example''
   \<and> last (basePath (NewClient_defaults
               \<lparr>RoundTrip = (\<lambda>req :: (unit, unit, unit) Request.
                    \<lparr>reply_resp = (None :: (unit, unit) Response option), reply_err = None,
                     decoded = (None :: unit option)\<rparr>)\<rparr>
               ''https://arpa.example//'')) \<noteq> CHR ''/''
   \<and> basePath (NewClient
               \<lparr>RoundTrip = (\<lambda>req :: (unit, unit, unit) Request.
                    \<lparr>reply_resp = (None :: (unit, unit) Response option), reply_err = None,
                     decoded = (None :: unit option)\<rparr>)\<rparr>
               ''https://arpa.example//''
               ([\<lambda>c. c\<lparr>basePath := basePath c @ ''/v1''\<rparr>]
                  @ [\<lambda>c. c\<lparr>basePath := basePath c @ ''/beta''\<rparr>]))
     = ''https://arpa.example/v1/beta''"
proof -
  let ?rn = "\<lparr>RoundTrip = (\<lambda>req :: (unit, unit, unit) Request.
                    \<lparr>reply_resp = (None :: (unit, unit) Response option), reply_err = None,
                     decoded = (None :: unit option)\<rparr>)\<rparr>"
  let ?o1 = "\<lambda>c :: (unit, unit, unit, unit, unit) GoArpa. c\<lparr>basePath := basePath c @ ''/v1''\<rparr>"
  let ?o2 = "\<lambda>c :: (unit, unit, unit, unit, unit) GoArpa. c\<lparr>basePath := basePath c @ ''/beta''\<rparr>"
  note thm1 = NewClient_defaults_then_options [of ?rn "''https://arpa.example//''" "[?o1]" ?o2]
  have trim: "TrimRight ''https://arpa.example//'' ''/'' = ''https://arpa.example''"
    by (simp add: TrimRight_def)
  from thm1 have base: "basePath (NewClient_defaults ?rn ''https://arpa.example//'')
                          = TrimRight ''https://arpa.example//'' ''/''"
    by blast
  from thm1 have nolast:
    "basePath (NewClient_defaults ?rn ''https://arpa.example//'') = []
     \<or> last (basePath (NewClient_defaults ?rn ''https://arpa.example//'')) \<noteq> CHR ''/''"
    by blast
  from thm1 have step: "NewClient ?rn ''https://arpa.example//'' ([?o1] @ [?o2])
                          = ?o2 (NewClient ?rn ''https://arpa.example//'' [?o1])"
    by blast
  from thm1 have one: "NewClient ?rn ''https://arpa.example//'' [?o1]
                         = fold (\<lambda>option c. option c) [?o1]
                             (NewClient_defaults ?rn ''https://arpa.example//'')"
    by blast
  have 1: "basePath (NewClient_defaults ?rn ''https://arpa.example//'') = ''https://arpa.example''"
    using base trim by simp
  have 2: "last (basePath (NewClient_defaults ?rn ''https://arpa.example//'')) \<noteq> CHR ''/''"
    using nolast 1 by simp
  have 3: "basePath (NewClient ?rn ''https://arpa.example//'' ([?o1] @ [?o2]))
             = ''https://arpa.example/v1/beta''"
    using step one 1 by simp
  from 1 2 3 show ?thesis by blast
qed

lemma injectTracingHeaders_frame:
  "injectTracingHeaders GlobalTracer ctx req
     = req\<lparr>Header := Header (injectTracingHeaders GlobalTracer ctx req)\<rparr>"
  by (simp add: injectTracingHeaders_def Let_def split: option.splits prod.splits)

lemma GetRequest_fields:
  "Cookies (GetRequest GlobalTracer ctx) = []"
  "Token (GetRequest GlobalTracer ctx) = []"
  "QueryParam (GetRequest GlobalTracer ctx) = Map.empty"
  "Body (GetRequest GlobalTracer ctx) = None"
  "Result (GetRequest GlobalTracer ctx) = None"
  "Ctx (GetRequest GlobalTracer ctx) = Some ctx"
  "ErrorSet (GetRequest GlobalTracer ctx) = True"
  by (simp_all add: GetRequest_def injectTracingHeaders_def R_def SetError_def SetContext_def
        Let_def split: option.splits prod.splits)

text \<open>
  C9, as amended. When the context has no active span, \<open>injectTracingHeaders\<close> returns
  the request as it was given, and it has no error to report. When a span is present the
  tracer of the context, or else the global tracer, is run on the header map, and the
  request returned is the given request with the header map as the tracer left it,
  whether the tracer reports a failure or not; no error is reported. So after a failed
  injection the request is returned unchanged when the failing tracer wrote nothing.
\<close>

theorem injectTracingHeaders_optional:
  "(Span ctx = None \<longrightarrow> injectTracingHeaders GlobalTracer ctx req = req)
   \<and> (\<forall>sp. Span ctx = Some sp \<longrightarrow>
          injectTracingHeaders GlobalTracer ctx req
            = req\<lparr>Header :=
                    fst ((case TracerValue ctx of Some t \<Rightarrow> t | None \<Rightarrow> GlobalTracer)
                           sp (Header req))\<rparr>)
   \<and> (\<forall>sp e. Span ctx = Some sp
          \<and> (case TracerValue ctx of Some t \<Rightarrow> t | None \<Rightarrow> GlobalTracer) sp (Header req)
              = (Header req, Some e)
          \<longrightarrow> injectTracingHeaders GlobalTracer ctx req = req)"
  by (auto simp: injectTracingHeaders_def Let_def split: option.splits prod.splits)

theorem injectTracingHeaders_optional_witness:
  "injectTracingHeaders noop_tracer ctx_background
       (SetHeader ''Content-Type'' ''application/json'' fresh_request)
     = SetHeader ''Content-Type'' ''application/json'' fresh_request
   \<and> injectTracingHeaders noop_tracer ctx_span_failing_tracer fresh_request
     = fresh_request\<lparr>Header := [''Uber-Trace-Id'' \<mapsto> ''1f:1f:0:1'']\<rparr>
   \<and> injectTracingHeaders noop_tracer ctx_span_rejecting_tracer fresh_request = fresh_request"
proof -
  have p1: "Span ctx_background = None" by (simp add: ctx_background_def)
  have 1: "injectTracingHeaders noop_tracer ctx_background
       (SetHeader ''Content-Type'' ''application/json'' fresh_request)
     = SetHeader ''Content-Type'' ''application/json'' fresh_request"
    using injectTracingHeaders_optional
            [of ctx_background noop_tracer
                "SetHeader ''Content-Type'' ''application/json'' fresh_request",
             THEN conjunct1] p1
    by (rule mp)
  have p2: "Span ctx_span_failing_tracer = Some ()" by (simp add: ctx_span_failing_tracer_def)
  have "injectTracingHeaders noop_tracer ctx_span_failing_tracer
                 fresh_request
               = fresh_request\<lparr>Header :=
                     fst ((case TracerValue ctx_span_failing_tracer of
                             Some t \<Rightarrow> t | None \<Rightarrow> noop_tracer) () (Header fresh_request))\<rparr>"
    using injectTracingHeaders_optional
            [of ctx_span_failing_tracer noop_tracer fresh_request,
             THEN conjunct2, THEN conjunct1, THEN spec, of "()"] p2
    by (rule mp)
  then have 2: "injectTracingHeaders noop_tracer ctx_span_failing_tracer
                    fresh_request
                  = fresh_request\<lparr>Header := [''Uber-Trace-Id'' \<mapsto> ''1f:1f:0:1'']\<rparr>"
    by (simp add: ctx_span_failing_tracer_def tracer_writes_then_fails_def R_def fresh_request_def)
  have p3: "Span ctx_span_rejecting_tracer = Some ()
            \<and> (case TracerValue ctx_span_rejecting_tracer of
                  Some t \<Rightarrow> t | None \<Rightarrow> noop_tracer) () (Header fresh_request)
                = (Header fresh_request, Some ''opentracing: unsupported format'')"
    by (simp add: ctx_span_rejecting_tracer_def tracer_rejects_def)
  have 3: "injectTracingHeaders noop_tracer ctx_span_rejecting_tracer fresh_request
             = fresh_request"
    using injectTracingHeaders_optional
            [of ctx_span_rejecting_tracer noop_tracer fresh_request,
             THEN conjunct2, THEN conjunct2, THEN spec, THEN spec,
             of "()" "''opentracing: unsupported format''"] p3
    by (rule mp)
  from 1 2 3 show ?thesis by (intro conjI)
qed

text \<open>
  The claim as stated fails: with a span in the context and a tracer that writes its
  header and then reports a failure, the request comes back carrying that header, which
  the request given did not have.
\<close>

theorem injectTracingHeaders_failed_injection_counterexample:
  "Span ctx_span_failing_tracer = Some ()
   \<and> snd (tracer_writes_then_fails () (Header fresh_request))
       = Some ''opentracing: carrier rejected''
   \<and> Header fresh_request ''Uber-Trace-Id'' = None
   \<and> Header (injectTracingHeaders noop_tracer ctx_span_failing_tracer
                fresh_request) ''Uber-Trace-Id''
       = Some ''1f:1f:0:1''
   \<and> injectTracingHeaders noop_tracer ctx_span_failing_tracer
        fresh_request \<noteq> fresh_request"
proof -
  have h: "Header (injectTracingHeaders noop_tracer ctx_span_failing_tracer
                     fresh_request) ''Uber-Trace-Id''
             = Some ''1f:1f:0:1''"
    by (simp add: injectTracingHeaders_def ctx_span_failing_tracer_def
          tracer_writes_then_fails_def R_def fresh_request_def)
  have n: "Header fresh_request ''Uber-Trace-Id'' = None"
    by (simp add: R_def fresh_request_def)
  from h n have "injectTracingHeaders noop_tracer ctx_span_failing_tracer
                   fresh_request \<noteq> fresh_request"
    by (metis option.distinct(1))
  with h n show ?thesis
    by (simp add: ctx_span_failing_tracer_def tracer_writes_then_fails_def fresh_request_def)
qed


section \<open>Properties of the endpoint operations\<close>


text \<open>
  With a nil response \<open>checkForError\<close> never returns nil, so an operation that goes on
  after a nil error holds a response.
\<close>

lemma checkForError_nil_response:
  "checkForError NotEmpty ErrString None err errMessage \<noteq> None"
  by (simp add: checkForError_def split: option.splits)















subsection \<open>What the operations send and return\<close>

lemma heap_one: "load (store 0 v [z]) 0 = v" "load [z] 0 = z" "load [z, y] 0 = z"
  "load (store (Suc 0) v [z, y]) 0 = z"
  by (simp_all add: load_def store_def)

lemma checkForError_success:
  "\<not> IsError r \<Longrightarrow> checkForError NotEmpty ErrString (Some r) None errMessage = None"
  by (simp add: checkForError_def)









subsection \<open>The result object of the creating operations\<close>

text \<open>
  Whatever the transport answers, \<open>CreateCustomer\<close> returns either no result or the
  zero value: the object the transport fills is the one \<^verbatim>\<open>SetResult\<close> allocated
  for the by-value argument, and the operation returns its own local.
\<close>

lemma CreateCustomer_result_is_zero_value:
  "fst (CreateCustomer GlobalTracer NotEmpty ErrString g ctx accessToken customer) = None
   \<or> fst (CreateCustomer GlobalTracer NotEmpty ErrString g ctx accessToken customer)
       = Some CreateCustomerResponse_zero"
  by (simp add: CreateCustomer_def Post_def Execute_def SetResult_value_def new_def Let_def
        split_def heap_one split: option.splits)

text \<open>
  The lookups pass the pointer itself: on success \<open>GetCustomerByMobile\<close> returns the
  object that was unmarshalled. Stated for a transport that gives the same successful
  reply to every request.
\<close>

lemma GetCustomerByMobile_returns_decoded:
  assumes "RoundTrip (restyClient g) = (\<lambda>sent. rep)"
    and "reply_err rep = None" and "reply_resp rep = Some r" and "\<not> IsError r"
    and "cookie \<noteq> []"
  shows "GetCustomerByMobile GlobalTracer NotEmpty ErrString MobileKey g ctx accessToken cookie
           mobile
         = Inr (Some (case decoded rep of Some v \<Rightarrow> v | None \<Rightarrow> GetCustomerResponse_zero),
                None)"
  using assms
  by (cases cookie)
     (simp_all add: GetCustomerByMobile_def GetRequestWithBearerAuthWithCookie_def Get_def
        Execute_def SetResult_pointer_def new_def Let_def split_def heap_one
        checkForError_success split: option.splits)

text \<open>
  C2, on the code. Against the mock server that answers the POST to the create-customer
  path with status 200 and the body
  \<^verbatim>\<open>{"BussinesCode":"127013","BussinessID":"42","Existed":false}\<close>,
  \<open>CreateCustomer\<close> returns a nil error and the zero response (empty business code,
  empty business id, not existed), not the response the body decodes to.
\<close>

theorem CreateCustomer_mock_server_returns_zero_value:
  "CreateCustomer noop_tracer NotEmpty_text String_text
       (NewClient mock_create_customer_server ''http://mock.local'' []) ctx_background
       ''token'' ()
     = (Some \<lparr>BusinessCode = [], BusinessID = [], Existed = False\<rparr>, None)"
proof -
  let ?g = "NewClient mock_create_customer_server ''http://mock.local'' []"
  have base: "basePath ?g = ''http://mock.local''"
    "CreateCustomerEndpoint (Config ?g) = ''serv/api/PostBussiness''"
    "restyClient ?g = mock_create_customer_server"
    by (simp_all add: NewClient_def NewClient_defaults_def TrimRight_def urlSeparator_def
          makeURL_def)
  have ok: "\<not> IsError \<lparr>StatusCode = 200, Status = ''200 OK'', Error = (None :: string option),
                         RespString = create_customer_body,
                         RespCookies = ([] :: string list)\<rparr>"
    by (simp add: IsError_def)
  show ?thesis
    unfolding CreateCustomer_def Post_def Execute_def SetResult_value_def new_def Let_def
      split_def base
    by (simp add: mock_create_customer_server_def checkForError_success [OF ok] heap_one
          CreateCustomerResponse_zero_def)
qed


subsection \<open>The cookie-bearing calls\<close>

lemma cookie_builder_fields:
  "GetRequestWithBearerAuthWithCookie GlobalTracer ctx token (c0 # rest) = Inr req
   \<Longrightarrow> Cookies req = [c0] \<and> Token req = token \<and> QueryParam req = Map.empty
       \<and> Result req = None"
  by (auto simp: GetRequestWithBearerAuthWithCookie_def SetHeader_def SetCookie_def
        SetAuthToken_def GetRequest_fields)

lemma GetCustomerByMobile_round_trip:
  fixes g :: "('b, 'c, 'sc, 'e, ('d, 'x) GetCustomerResponse) GoArpa"
  assumes "cookie \<noteq> []"
  shows "\<exists>sent. Cookies sent = [hd cookie] \<and> Token sent = accessToken
           \<and> Method sent = ''GET''
           \<and> URL sent = basePath g @ ''/'' @ GetCustomerEndpoint (Config g)
           \<and> QueryParam sent = [MobileKey \<mapsto> mobile]
           \<and> GetCustomerByMobile GlobalTracer NotEmpty ErrString MobileKey g ctx accessToken
                cookie mobile
               = Inr (let reply = RoundTrip (restyClient g) sent
                      in case checkForError NotEmpty ErrString (reply_resp reply)
                                (reply_err reply) ''could not get customer info'' of
                           Some e \<Rightarrow> (None, Some e)
                         | None \<Rightarrow>
                             (Some (case decoded reply of
                                      Some v \<Rightarrow> v | None \<Rightarrow> GetCustomerResponse_zero),
                              None))"
proof -
  from assms obtain c0 rest where c: "cookie = c0 # rest" by (cases cookie) auto
  obtain req where b: "GetRequestWithBearerAuthWithCookie GlobalTracer ctx accessToken
                         (c0 # rest) = (Inr req :: panic + ('b, 'c, 'sc) Request)"
    by (simp add: GetRequestWithBearerAuthWithCookie_def)
  note f = cookie_builder_fields [OF b]
  let ?sent = "(SetResult_pointer 0 (SetQueryParam MobileKey mobile req))
                 \<lparr>Method := ''GET'',
                  URL := basePath g @ ''/'' @ GetCustomerEndpoint (Config g)\<rparr>"
  have 1: "Cookies ?sent = [hd cookie]" "Token ?sent = accessToken" "Method ?sent = ''GET''"
    "URL ?sent = basePath g @ ''/'' @ GetCustomerEndpoint (Config g)"
    "QueryParam ?sent = [MobileKey \<mapsto> mobile]"
    using f by (simp_all add: c SetResult_pointer_def SetQueryParam_def)
  have 2: "GetCustomerByMobile GlobalTracer NotEmpty ErrString MobileKey g ctx accessToken
             cookie mobile
           = Inr (let reply = RoundTrip (restyClient g) ?sent
                  in case checkForError NotEmpty ErrString (reply_resp reply)
                            (reply_err reply) ''could not get customer info'' of
                       Some e \<Rightarrow> (None, Some e)
                     | None \<Rightarrow>
                         (Some (case decoded reply of
                                  Some v \<Rightarrow> v | None \<Rightarrow> GetCustomerResponse_zero),
                          None))"
    unfolding c GetCustomerByMobile_def b
    by (simp add: Get_def Execute_def new_def Let_def SetResult_pointer_def heap_one
          split: option.splits)
  from 1 2 show ?thesis by blast
qed


lemma GetCustomerByBusinessCode_round_trip:
  fixes g :: "('b, 'c, 'sc, 'e, ('d, 'x) GetCustomerResponse) GoArpa"
  assumes "cookie \<noteq> []"
  shows "\<exists>sent. Cookies sent = [hd cookie] \<and> Token sent = accessToken
           \<and> Method sent = ''GET''
           \<and> URL sent = basePath g @ ''/'' @ GetCustomerEndpoint (Config g)
           \<and> QueryParam sent = [BusinessCodeKey \<mapsto> businessCode]
           \<and> GetCustomerByBusinessCode GlobalTracer NotEmpty ErrString BusinessCodeKey g ctx accessToken
                cookie businessCode
               = Inr (let reply = RoundTrip (restyClient g) sent
                      in case checkForError NotEmpty ErrString (reply_resp reply)
                                (reply_err reply) ''could not get customer info'' of
                           Some e \<Rightarrow> (None, Some e)
                         | None \<Rightarrow>
                             (Some (case decoded reply of
                                      Some v \<Rightarrow> v | None \<Rightarrow> GetCustomerResponse_zero),
                              None))"
proof -
  from assms obtain c0 rest where c: "cookie = c0 # rest" by (cases cookie) auto
  obtain req where b: "GetRequestWithBearerAuthWithCookie GlobalTracer ctx accessToken
                         (c0 # rest) = (Inr req :: panic + ('b, 'c, 'sc) Request)"
    by (simp add: GetRequestWithBearerAuthWithCookie_def)
  note f = cookie_builder_fields [OF b]
  let ?sent = "(SetResult_pointer 0 (SetQueryParam BusinessCodeKey businessCode req))
                 \<lparr>Method := ''GET'',
                  URL := basePath g @ ''/'' @ GetCustomerEndpoint (Config g)\<rparr>"
  have 1: "Cookies ?sent = [hd cookie]" "Token ?sent = accessToken" "Method ?sent = ''GET''"
    "URL ?sent = basePath g @ ''/'' @ GetCustomerEndpoint (Config g)"
    "QueryParam ?sent = [BusinessCodeKey \<mapsto> businessCode]"
    using f by (simp_all add: c SetResult_pointer_def SetQueryParam_def)
  have 2: "GetCustomerByBusinessCode GlobalTracer NotEmpty ErrString BusinessCodeKey g ctx accessToken
             cookie businessCode
           = Inr (let reply = RoundTrip (restyClient g) ?sent
                  in case checkForError NotEmpty ErrString (reply_resp reply)
                            (reply_err reply) ''could not get customer info'' of
                       Some e \<Rightarrow> (None, Some e)
                     | None \<Rightarrow>
                         (Some (case decoded reply of
                                  Some v \<Rightarrow> v | None \<Rightarrow> GetCustomerResponse_zero),
                          None))"
    unfolding c GetCustomerByBusinessCode_def b
    by (simp add: Get_def Execute_def new_def Let_def SetResult_pointer_def heap_one
          split: option.splits)
  from 1 2 show ?thesis by blast
qed


text \<open>
  C8. For the cookie-bearing builder and the two lookups that call it. When the cookie
  collection is not empty, the builder returns a request whose cookies are exactly the
  first cookie of the collection, and each lookup does not fault: it hands the transport
  a GET whose cookies are exactly that first cookie, with the bearer token and its one
  query parameter, and returns what the error mapper and the unmarshalled object give
  for the reply. When the collection is empty, the access to its first element faults,
  in the builder and in both lookups.
\<close>

theorem first_cookie_precondition:
  fixes g :: "('b, 'c, 'sc, 'e, ('d, 'x) GetCustomerResponse) GoArpa"
  shows
  "(cookie \<noteq> [] \<longrightarrow>
      (\<exists>req. GetRequestWithBearerAuthWithCookie GlobalTracer ctx token cookie
               = (Inr req :: panic + ('b, 'c, 'sc) Request)
             \<and> Cookies req = [hd cookie] \<and> Token req = token)
      \<and> (\<exists>sent. Cookies sent = [hd cookie] \<and> Token sent = token \<and> Method sent = ''GET''
             \<and> URL sent = basePath g @ ''/'' @ GetCustomerEndpoint (Config g)
             \<and> QueryParam sent = [MobileKey \<mapsto> mobile]
             \<and> GetCustomerByMobile GlobalTracer NotEmpty ErrString MobileKey g ctx token cookie
                  mobile
                 = Inr (let reply = RoundTrip (restyClient g) sent
                        in case checkForError NotEmpty ErrString (reply_resp reply)
                                  (reply_err reply) ''could not get customer info'' of
                             Some e \<Rightarrow> (None, Some e)
                           | None \<Rightarrow>
                               (Some (case decoded reply of
                                        Some v \<Rightarrow> v | None \<Rightarrow> GetCustomerResponse_zero),
                                None)))
      \<and> (\<exists>sent. Cookies sent = [hd cookie] \<and> Token sent = token \<and> Method sent = ''GET''
             \<and> URL sent = basePath g @ ''/'' @ GetCustomerEndpoint (Config g)
             \<and> QueryParam sent = [BusinessCodeKey \<mapsto> businessCode]
             \<and> GetCustomerByBusinessCode GlobalTracer NotEmpty ErrString BusinessCodeKey g ctx token cookie
                  businessCode
                 = Inr (let reply = RoundTrip (restyClient g) sent
                        in case checkForError NotEmpty ErrString (reply_resp reply)
                                  (reply_err reply) ''could not get customer info'' of
                             Some e \<Rightarrow> (None, Some e)
                           | None \<Rightarrow>
                               (Some (case decoded reply of
                                        Some v \<Rightarrow> v | None \<Rightarrow> GetCustomerResponse_zero),
                                None))))
   \<and> (cookie = [] \<longrightarrow>
        GetRequestWithBearerAuthWithCookie GlobalTracer ctx token cookie
          = (Inl IndexOutOfRange :: panic + ('b, 'c, 'sc) Request)
        \<and> GetCustomerByMobile GlobalTracer NotEmpty ErrString MobileKey g ctx token cookie mobile
            = Inl IndexOutOfRange
        \<and> GetCustomerByBusinessCode GlobalTracer NotEmpty ErrString BusinessCodeKey g ctx token
              cookie businessCode
            = Inl IndexOutOfRange)"
proof (cases cookie)
  case Nil
  then show ?thesis
    by (simp add: GetRequestWithBearerAuthWithCookie_def GetCustomerByMobile_def
          GetCustomerByBusinessCode_def new_def)
next
  case (Cons c0 rest)
  then have ne: "cookie \<noteq> []" by simp
  have b: "\<exists>req. GetRequestWithBearerAuthWithCookie GlobalTracer ctx token cookie
               = (Inr req :: panic + ('b, 'c, 'sc) Request)
             \<and> Cookies req = [hd cookie] \<and> Token req = token"
    using Cons
    by (simp add: GetRequestWithBearerAuthWithCookie_def SetHeader_def SetCookie_def
          SetAuthToken_def GetRequest_fields)
  have m: "(\<exists>sent. Cookies sent = [hd cookie] \<and> Token sent = token \<and> Method sent = ''GET''
               \<and> URL sent = basePath g @ ''/'' @ GetCustomerEndpoint (Config g)
               \<and> QueryParam sent = [MobileKey \<mapsto> mobile]
               \<and> GetCustomerByMobile GlobalTracer NotEmpty ErrString MobileKey g ctx token cookie
                    mobile
                   = Inr (let reply = RoundTrip (restyClient g) sent
                          in case checkForError NotEmpty ErrString (reply_resp reply)
                                    (reply_err reply) ''could not get customer info'' of
                               Some e \<Rightarrow> (None, Some e)
                             | None \<Rightarrow>
                                 (Some (case decoded reply of
                                          Some v \<Rightarrow> v | None \<Rightarrow> GetCustomerResponse_zero),
                                  None)))"
    using ne by (rule GetCustomerByMobile_round_trip)
  have c: "(\<exists>sent. Cookies sent = [hd cookie] \<and> Token sent = token \<and> Method sent = ''GET''
               \<and> URL sent = basePath g @ ''/'' @ GetCustomerEndpoint (Config g)
               \<and> QueryParam sent = [BusinessCodeKey \<mapsto> businessCode]
               \<and> GetCustomerByBusinessCode GlobalTracer NotEmpty ErrString BusinessCodeKey g ctx token cookie
                    businessCode
                   = Inr (let reply = RoundTrip (restyClient g) sent
                          in case checkForError NotEmpty ErrString (reply_resp reply)
                                    (reply_err reply) ''could not get customer info'' of
                               Some e \<Rightarrow> (None, Some e)
                             | None \<Rightarrow>
                                 (Some (case decoded reply of
                                          Some v \<Rightarrow> v | None \<Rightarrow> GetCustomerResponse_zero),
                                  None)))"
    using ne by (rule GetCustomerByBusinessCode_round_trip)
  from ne b m c show ?thesis by (intro conjI impI) simp_all
qed


theorem first_cookie_precondition_witness:
  "(\<exists>req. GetRequestWithBearerAuthWithCookie noop_tracer ctx_background ''tok''
             [''ASP.NET_SessionId=abc'', ''lang=fa'']
           = (Inr req :: panic + (unit, string, unit) Request)
         \<and> Cookies req = [''ASP.NET_SessionId=abc''])
   \<and> GetCustomerByMobile noop_tracer NotEmpty_text String_text ''Mobile''
         (NewClient session_lookup_server ''http://arpa.example'' [])
         ctx_background ''tok'' [''ASP.NET_SessionId=abc'', ''lang=fa''] ''09120000000''
       = Inr (Some \<lparr>GData = [''customer 127013''], GError = None\<rparr>, None)
   \<and> GetCustomerByBusinessCode noop_tracer NotEmpty_text String_text ''BusinessCode''
         (NewClient session_lookup_server ''http://arpa.example'' [])
         ctx_background ''tok'' [''ASP.NET_SessionId=abc'', ''lang=fa''] ''127013''
       = Inr (None, Some \<lparr>Code = 404, Message = ''404 Not Found'', Type = ''unknown''\<rparr>)
   \<and> GetRequestWithBearerAuthWithCookie noop_tracer ctx_background ''tok'' []
       = (Inl IndexOutOfRange :: panic + (unit, string, unit) Request)
   \<and> GetCustomerByMobile noop_tracer NotEmpty_text String_text ''Mobile''
         (NewClient session_lookup_server ''http://arpa.example'' [])
         ctx_background ''tok'' [] ''09120000000''
       = Inl IndexOutOfRange
   \<and> GetCustomerByBusinessCode noop_tracer NotEmpty_text String_text ''BusinessCode''
         (NewClient session_lookup_server ''http://arpa.example'' [])
         ctx_background ''tok'' [] ''127013''
       = Inl IndexOutOfRange"
proof -
  let ?g = "NewClient session_lookup_server ''http://arpa.example'' []"
  let ?cs = "[''ASP.NET_SessionId=abc'', ''lang=fa'']"
  have base: "basePath ?g = ''http://arpa.example''"
    "GetCustomerEndpoint (Config ?g) = ''serv/api/GetBusiness''"
    "restyClient ?g = session_lookup_server"
    by (simp_all add: NewClient_def NewClient_defaults_def TrimRight_def urlSeparator_def
          makeURL_def)
  have ne: "?cs \<noteq> []" by simp
  note full = first_cookie_precondition
    [where cookie = ?cs and GlobalTracer = noop_tracer and ctx = ctx_background
       and token = "''tok''" and NotEmpty = NotEmpty_text and ErrString = String_text
       and MobileKey = "''Mobile''" and mobile = "''09120000000''"
       and BusinessCodeKey = "''BusinessCode''" and businessCode = "''127013''" and g = ?g]
  note w = full [THEN conjunct1, THEN mp, OF ne]
  from w [THEN conjunct1]
  have 1: "\<exists>req. GetRequestWithBearerAuthWithCookie noop_tracer ctx_background ''tok'' ?cs
                 = (Inr req :: panic + (unit, string, unit) Request)
               \<and> Cookies req = [''ASP.NET_SessionId=abc'']"
    by fastforce
  from w [THEN conjunct2, THEN conjunct1]
  obtain sent where
    f: "Cookies sent = [hd ?cs]" "Method sent = ''GET''"
       "URL sent = basePath ?g @ ''/'' @ GetCustomerEndpoint (Config ?g)"
       "QueryParam sent = [''Mobile'' \<mapsto> ''09120000000'']"
    and r: "GetCustomerByMobile noop_tracer NotEmpty_text String_text ''Mobile'' ?g
              ctx_background ''tok'' ?cs ''09120000000''
            = Inr (let reply = RoundTrip (restyClient ?g) sent
                   in case checkForError NotEmpty_text String_text (reply_resp reply)
                             (reply_err reply) ''could not get customer info'' of
                        Some e \<Rightarrow> (None, Some e)
                      | None \<Rightarrow>
                          (Some (case decoded reply of
                                   Some v \<Rightarrow> v | None \<Rightarrow> GetCustomerResponse_zero),
                           None))"
    by (elim exE conjE)
  have f2: "Cookies sent = [''ASP.NET_SessionId=abc'']" "Method sent = ''GET''"
    "URL sent = ''http://arpa.example/serv/api/GetBusiness''"
    "QueryParam sent ''Mobile'' = Some ''09120000000''"
    using f by (simp_all add: base)
  have "RoundTrip session_lookup_server sent
          = \<lparr>reply_resp = Some \<lparr>StatusCode = 200, Status = ''200 OK'', Error = None,
                                RespString = [], RespCookies = []\<rparr>,
             reply_err = None,
             decoded = Some \<lparr>GData = [''customer 127013''], GError = None\<rparr>\<rparr>"
    by (simp add: session_lookup_server_def f2)
  then have 2: "GetCustomerByMobile noop_tracer NotEmpty_text String_text ''Mobile'' ?g
                  ctx_background ''tok'' ?cs ''09120000000''
                = Inr (Some \<lparr>GData = [''customer 127013''], GError = None\<rparr>, None)"
    unfolding r base by (simp add: checkForError_def IsError_def)
  from w [THEN conjunct2, THEN conjunct2]
  obtain sent' where
    f': "Cookies sent' = [hd ?cs]" "Method sent' = ''GET''"
       "QueryParam sent' = [''BusinessCode'' \<mapsto> ''127013'']"
    and r': "GetCustomerByBusinessCode noop_tracer NotEmpty_text String_text ''BusinessCode'' ?g
              ctx_background ''tok'' ?cs ''127013''
            = Inr (let reply = RoundTrip (restyClient ?g) sent'
                   in case checkForError NotEmpty_text String_text (reply_resp reply)
                             (reply_err reply) ''could not get customer info'' of
                        Some e \<Rightarrow> (None, Some e)
                      | None \<Rightarrow>
                          (Some (case decoded reply of
                                   Some v \<Rightarrow> v | None \<Rightarrow> GetCustomerResponse_zero),
                           None))"
    by (elim exE conjE)
  have f2': "QueryParam sent' ''Mobile'' = None"
    using f' by simp
  have "RoundTrip session_lookup_server sent' = not_found"
    by (simp add: session_lookup_server_def f2')
  then have 3: "GetCustomerByBusinessCode noop_tracer NotEmpty_text String_text
                  ''BusinessCode'' ?g ctx_background ''tok'' ?cs ''127013''
                = Inr (None, Some \<lparr>Code = 404, Message = ''404 Not Found'',
                                    Type = ''unknown''\<rparr>)"
    unfolding r' base
    by (simp add: not_found_def checkForError_def IsError_def ParseAPIErrType_def
          APIErrTypeUnknown_def)
  note e = first_cookie_precondition
    [where cookie = "[] :: string list" and GlobalTracer = noop_tracer and ctx = ctx_background
       and token = "''tok''" and NotEmpty = NotEmpty_text and ErrString = String_text
       and MobileKey = "''Mobile''" and mobile = "''09120000000''"
       and BusinessCodeKey = "''BusinessCode''" and businessCode = "''127013''" and g = ?g,
     THEN conjunct2, THEN mp, OF refl]
  from 1 2 3 e [THEN conjunct1] e [THEN conjunct2, THEN conjunct1]
    e [THEN conjunct2, THEN conjunct2]
  show ?thesis by (intro conjI)
qed

section \<open>Properties of StringOrArray\<close>

text \<open>
  C10, as amended. For every StringOrArray that is not nil, marshalling and then
  unmarshalling gives the value back, provided \<^verbatim>\<open>encoding/json\<close> itself gives back
  what the methods hand to it: a one-element array is marshalled as its string alone
  (whose encoding does not open with a bracket) and unmarshalled to the one-element
  array; any other array is marshalled as an array (whose encoding opens with a bracket
  and has more than one byte) and unmarshalled as it was. The nil StringOrArray is
  marshalled as a slice, to \<^verbatim>\<open>null\<close>; \<^verbatim>\<open>null\<close> is unmarshalled by the string
  branch and, leaving the string empty, gives the one-element array of the empty string.
\<close>

theorem StringOrArray_round_trip:
  "(\<forall>x b. s = Some [x] \<and> Marshal_string J x = Inr b
           \<and> \<not> (1 < length b \<and> hd b = CHR ''['') \<and> Unmarshal_string J b = Inr x
      \<longrightarrow> MarshalJSON J s = Inr b \<and> UnmarshalJSON J b = Inr s)
   \<and> (\<forall>xs b. s = Some xs \<and> length xs \<noteq> 1 \<and> Marshal_strings J s = Inr b
           \<and> 1 < length b \<and> hd b = CHR ''['' \<and> Unmarshal_strings J b = Inr s
      \<longrightarrow> MarshalJSON J s = Inr b \<and> UnmarshalJSON J b = Inr s)
   \<and> (s = None \<and> Marshal_strings J None = Inr ''null'' \<and> Unmarshal_string J ''null'' = Inr []
      \<longrightarrow> MarshalJSON J s = Inr ''null'' \<and> UnmarshalJSON J ''null'' = Inr (Some [[]]))"
proof (intro conjI allI impI)
  fix x b
  assume h: "s = Some [x] \<and> Marshal_string J x = Inr b
           \<and> \<not> (1 < length b \<and> hd b = CHR ''['') \<and> Unmarshal_string J b = Inr x"
  then show "MarshalJSON J s = Inr b" by (simp add: MarshalJSON_def)
  from h show "UnmarshalJSON J b = Inr s" by (auto simp: UnmarshalJSON_def)
next
  fix xs b
  assume h: "s = Some xs \<and> length xs \<noteq> 1 \<and> Marshal_strings J s = Inr b
           \<and> 1 < length b \<and> hd b = CHR ''['' \<and> Unmarshal_strings J b = Inr s"
  then have "\<And>x. xs \<noteq> [x]" by auto
  with h show "MarshalJSON J s = Inr b"
    by (cases xs; cases "tl xs") (simp_all add: MarshalJSON_def)
  from h show "UnmarshalJSON J b = Inr s" by (simp add: UnmarshalJSON_def)
next
  assume h: "s = None \<and> Marshal_strings J None = Inr ''null''
               \<and> Unmarshal_string J ''null'' = Inr []"
  then show "MarshalJSON J s = Inr ''null''" by (simp add: MarshalJSON_def)
  from h show "UnmarshalJSON J ''null'' = Inr (Some [[]])" by (simp add: UnmarshalJSON_def)
qed

theorem StringOrArray_round_trip_witness:
  "MarshalJSON encoding_json (Some [''127013'']) = Inr ''\"127013\"''
   \<and> UnmarshalJSON encoding_json ''\"127013\"'' = Inr (Some [''127013''])
   \<and> MarshalJSON encoding_json (Some [''a'', ''b'']) = Inr ''[\"a\",\"b\"]''
   \<and> UnmarshalJSON encoding_json ''[\"a\",\"b\"]'' = Inr (Some [''a'', ''b''])
   \<and> MarshalJSON encoding_json (Some []) = Inr ''[]''
   \<and> UnmarshalJSON encoding_json ''[]'' = Inr (Some [])
   \<and> MarshalJSON encoding_json None = Inr ''null''
   \<and> UnmarshalJSON encoding_json ''null'' = Inr (Some [[]])"
proof -
  have one: "Some [''127013''] = Some [''127013''] \<and>
             Marshal_string encoding_json ''127013'' = Inr ''\"127013\"''
             \<and> \<not> (1 < length ''\"127013\"'' \<and> hd ''\"127013\"'' = CHR ''['')
             \<and> Unmarshal_string encoding_json ''\"127013\"'' = Inr ''127013''"
    by code_simp
  have two: "Some [''a'', ''b''] = Some [''a'', ''b''] \<and> length [''a'', ''b''] \<noteq> 1
             \<and> Marshal_strings encoding_json (Some [''a'', ''b'']) = Inr ''[\"a\",\"b\"]''
             \<and> 1 < length ''[\"a\",\"b\"]'' \<and> hd ''[\"a\",\"b\"]'' = CHR ''[''
             \<and> Unmarshal_strings encoding_json ''[\"a\",\"b\"]'' = Inr (Some [''a'', ''b''])"
    by code_simp
  have none: "Some ([] :: string list) = Some [] \<and> length ([] :: string list) \<noteq> 1
             \<and> Marshal_strings encoding_json (Some []) = Inr ''[]''
             \<and> 1 < length ''[]'' \<and> hd ''[]'' = CHR ''[''
             \<and> Unmarshal_strings encoding_json ''[]'' = Inr (Some [])"
    by code_simp
  have 1: "MarshalJSON encoding_json (Some [''127013'']) = Inr ''\"127013\"''
           \<and> UnmarshalJSON encoding_json ''\"127013\"'' = Inr (Some [''127013''])"
    using StringOrArray_round_trip
            [of "Some [''127013'']" encoding_json, THEN conjunct1, THEN spec, THEN spec,
             of "''127013''" "''\"127013\"''"] one
    by (rule mp)
  have 2: "MarshalJSON encoding_json (Some [''a'', ''b'']) = Inr ''[\"a\",\"b\"]''
           \<and> UnmarshalJSON encoding_json ''[\"a\",\"b\"]'' = Inr (Some [''a'', ''b''])"
    using StringOrArray_round_trip
            [of "Some [''a'', ''b'']" encoding_json, THEN conjunct2, THEN conjunct1,
             THEN spec, THEN spec, of "[''a'', ''b'']" "''[\"a\",\"b\"]''"] two
    by (rule mp)
  have 3: "MarshalJSON encoding_json (Some []) = Inr ''[]''
           \<and> UnmarshalJSON encoding_json ''[]'' = Inr (Some [])"
    using StringOrArray_round_trip
            [of "Some []" encoding_json, THEN conjunct2, THEN conjunct1,
             THEN spec, THEN spec, of "[]" "''[]''"] none
    by (rule mp)
  have nil: "(None :: StringOrArray) = None
             \<and> Marshal_strings encoding_json None = Inr ''null''
             \<and> Unmarshal_string encoding_json ''null'' = Inr []"
    by code_simp
  have 4: "MarshalJSON encoding_json None = Inr ''null''
           \<and> UnmarshalJSON encoding_json ''null'' = Inr (Some [[]])"
    using StringOrArray_round_trip
            [of None encoding_json, THEN conjunct2, THEN conjunct2] nil
    by (rule mp)
  from 1 2 3 4 show ?thesis by blast
qed

text \<open>
  The claim as stated fails on the nil StringOrArray: it is marshalled to
  \<^verbatim>\<open>null\<close>, and \<^verbatim>\<open>null\<close> is unmarshalled to the one-element array of the
  empty string, which is not nil.
\<close>

theorem StringOrArray_nil_round_trip_counterexample:
  "MarshalJSON encoding_json None = Inr ''null''
   \<and> UnmarshalJSON encoding_json ''null'' = Inr (Some [[]])
   \<and> UnmarshalJSON encoding_json ''null'' \<noteq> Inr None"
  by code_simp

subsection \<open>The model of encoding/json gives back 7-bit text\<close>

lemma hexval_hex: "n < 16 \<Longrightarrow> hexval (hex ! n) = Some n"
proof -
  assume "n < 16"
  then have "n \<in> set [0..<16]" by simp
  moreover have "\<forall>k \<in> set [0..<16]. hexval (hex ! k) = Some k" by code_simp
  ultimately show ?thesis by blast
qed

lemma getu4_hex:
  assumes "b < 128"
  shows "getu4 (CHR ''0'' # CHR ''0'' # hex ! (b div 16) # hex ! (b mod 16) # t) = Some b"
proof -
  have "b div 16 < 16" using assms by simp
  then have 1: "hexval (hex ! (b div 16)) = Some (b div 16)" by (rule hexval_hex)
  have 2: "hexval (hex ! (b mod 16)) = Some (b mod 16)" by (rule hexval_hex) simp
  have 0: "hexval (CHR ''0'') = Some 0" by (simp add: hexval_def)
  show ?thesis by (simp add: getu4_def 0 1 2)
qed

lemma unquote_body_escape_byte:
  "unquote_body (escape_byte c @ t) = map_option (\<lambda>(s, r). (c # s, r)) (unquote_body t)"
proof -
  let ?b = "of_char c :: nat"
  consider (high) "128 \<le> ?b"
    | (quote) "?b < 128" "c = CHR 0x5C \<or> c = CHR 0x22"
    | (short) "?b < 128" "c = CHR 0x08 \<or> c = CHR 0x0C \<or> c = CHR 0x0A \<or> c = CHR 0x0D \<or> c = CHR 0x09"
    | (uni) "?b < 128" "c \<noteq> CHR 0x5C" "c \<noteq> CHR 0x22" "c \<noteq> CHR 0x08" "c \<noteq> CHR 0x0C"
        "c \<noteq> CHR 0x0A" "c \<noteq> CHR 0x0D" "c \<noteq> CHR 0x09"
        "?b < 32 \<or> c = CHR ''&'' \<or> c = CHR ''<'' \<or> c = CHR ''>''"
    | (plain) "?b < 128" "c \<noteq> CHR 0x5C" "c \<noteq> CHR 0x22" "c \<noteq> CHR 0x08" "c \<noteq> CHR 0x0C"
        "c \<noteq> CHR 0x0A" "c \<noteq> CHR 0x0D" "c \<noteq> CHR 0x09"
        "\<not> (?b < 32 \<or> c = CHR ''&'' \<or> c = CHR ''<'' \<or> c = CHR ''>'')"
    by linarith
  then show ?thesis
  proof cases
    case high
    then have "c \<noteq> CHR 0x22" "c \<noteq> CHR 0x5C" by auto
    with high show ?thesis by (simp add: escape_byte_def)
  next
    case quote
    then show ?thesis by (auto simp: escape_byte_def unescape_def)
  next
    case short
    then show ?thesis by (auto simp: escape_byte_def unescape_def)
  next
    case uni
    have e: "escape_byte c
               = [CHR 0x5C, CHR ''u'', CHR ''0'', CHR ''0'', hex ! (?b div 16), hex ! (?b mod 16)]"
      using uni by (simp add: escape_byte_def Let_def)
    have g: "getu4 (CHR ''0'' # CHR ''0'' # hex ! (?b div 16) # hex ! (?b mod 16) # t) = Some ?b"
      using uni(1) by (rule getu4_hex)
    show ?thesis using uni(1) by (simp add: e g)
  next
    case plain
    then show ?thesis by (simp add: escape_byte_def)
  qed
qed

lemma unquote_body_quote:
  "unquote_body (concat (map escape_byte s) @ CHR 0x22 # rest) = Some (s, rest)"
  by (induction s) (simp_all add: unquote_body_escape_byte)


lemma skip_ws_no_space: "s \<noteq> [] \<Longrightarrow> \<not> isSpace (hd s) \<Longrightarrow> skip_ws s = s"
  by (cases s) (simp_all add: skip_ws_def)

lemma trim_ws_no_space:
  assumes "s \<noteq> []" and "\<not> isSpace (hd s)" and "\<not> isSpace (last s)"
  shows "trim_ws s = s"
proof -
  have "skip_ws s = s" using assms(1,2) by (rule skip_ws_no_space)
  moreover have "skip_ws (rev s) = rev s"
    using assms(1,3) by (intro skip_ws_no_space) (simp_all add: hd_rev)
  ultimately show ?thesis by (simp add: trim_ws_def)
qed

lemma quote_shape:
  "quote x = CHR 0x22 # concat (map escape_byte x) @ [CHR 0x22]"
  by (simp add: quote_def)

lemma unmarshal_string_quote: "unmarshal_string (quote x) = Inr x"
proof -
  have t: "trim_ws (quote x) = quote x"
    by (rule trim_ws_no_space) (simp_all add: quote_shape isSpace_def)
  have n: "quote x \<noteq> ''null''" by (simp add: quote_shape)
  have b: "unquote_body (concat (map escape_byte x) @ [CHR 0x22]) = Some (x, [])"
    by (rule unquote_body_quote)
  show ?thesis
    unfolding unmarshal_string_def t Let_def using n
    by (simp add: quote_shape b)
qed

lemma parse_elem_quote: "parse_elem (quote x @ rest) = Some (x, rest)"
  by (simp add: parse_elem_def quote_shape unquote_body_quote)

lemma skip_ws_quote: "skip_ws (quote x @ rest) = quote x @ rest"
  by (rule skip_ws_no_space) (simp_all add: quote_shape isSpace_def)

lemma skip_ws_punct:
  "skip_ws (CHR '']'' # r) = CHR '']'' # r"
  "skip_ws (CHR '','' # r) = CHR '','' # r"
  "skip_ws (CHR 0x22 # r) = CHR 0x22 # r"
  by (simp_all add: skip_ws_def isSpace_def)

lemma parse_elems_Join:
  "parse_elems (Join (quote x # map quote xs) '','' @ CHR '']'' # rest) = Some (x # xs, rest)"
proof (induction xs arbitrary: x)
  case Nil
  show ?case
    by (subst parse_elems.simps)
       (simp add: skip_ws_quote parse_elem_quote skip_ws_punct)
next
  case (Cons y ys)
  show ?case
    by (subst parse_elems.simps)
       (simp add: skip_ws_quote parse_elem_quote skip_ws_punct Cons.IH)
qed

lemma unmarshal_strings_elems:
  assumes "parse_elems (CHR 0x22 # r) = Some (xs, [])"
    and "trim_ws (CHR ''['' # CHR 0x22 # r) = CHR ''['' # CHR 0x22 # r"
  shows "unmarshal_strings (CHR ''['' # CHR 0x22 # r) = Inr (Some xs)"
  unfolding unmarshal_strings_def assms(2) Let_def
  by (simp add: skip_ws_punct assms(1))

lemma unmarshal_strings_array:
  "unmarshal_strings (CHR ''['' # Join (map quote xs) '','' @ '']'') = Inr (Some xs)"
proof (cases xs)
  case Nil
  have t: "trim_ws ''[]'' = ''[]''"
    by (rule trim_ws_no_space) (simp_all add: isSpace_def)
  show ?thesis
    unfolding Nil unmarshal_strings_def Let_def
    by (simp add: t skip_ws_punct)
next
  case (Cons y ys)
  let ?body = "Join (map quote (y # ys)) '','' @ '']''"
  have p: "parse_elems ?body = Some (y # ys, [])"
    using parse_elems_Join [of y ys "[]"] by simp
  obtain r where f: "?body = CHR 0x22 # r"
    by (cases ys) (simp_all add: quote_shape)
  have t: "trim_ws (CHR ''['' # ?body) = CHR ''['' # ?body"
    by (rule trim_ws_no_space) (simp_all add: isSpace_def)
  have "unmarshal_strings (CHR ''['' # CHR 0x22 # r) = Inr (Some (y # ys))"
    using p t unfolding f by (rule unmarshal_strings_elems)
  then show ?thesis unfolding Cons f [symmetric] .
qed

text \<open>
  With the model of the library, every StringOrArray that is not nil and holds 7-bit
  text is given back by marshalling and unmarshalling. The lemma is stated for 7-bit
  text because that is where the model is the library.
\<close>

lemma StringOrArray_round_trip_7bit:
  assumes "\<forall>x \<in> set xs. \<forall>c \<in> set x. (of_char c :: nat) < 128"
  shows "\<exists>b. MarshalJSON encoding_json (Some xs) = Inr b
             \<and> UnmarshalJSON encoding_json b = Inr (Some xs)"
proof (cases "\<exists>x. xs = [x]")
  case True
  then obtain x where x: "xs = [x]" by blast
  have m: "MarshalJSON encoding_json (Some xs) = Inr (quote x)"
    by (simp add: x MarshalJSON_def encoding_json_def)
  have "hd (quote x) \<noteq> CHR ''[''" by (simp add: quote_shape)
  then have "UnmarshalJSON encoding_json (quote x) = Inr (Some [x])"
    by (simp add: UnmarshalJSON_def encoding_json_def unmarshal_string_quote)
  with m x show ?thesis by simp
next
  case False
  then have m: "MarshalJSON encoding_json (Some xs)
                  = Inr (CHR ''['' # Join (map quote xs) '','' @ '']'')"
    by (cases xs; cases "tl xs")
       (simp_all add: MarshalJSON_def encoding_json_def marshal_strings_def)
  have "UnmarshalJSON encoding_json (CHR ''['' # Join (map quote xs) '','' @ '']'')
          = Inr (Some xs)"
    by (simp add: UnmarshalJSON_def encoding_json_def unmarshal_strings_array)
  with m show ?thesis by simp
qed


end
